theory Spec2Isabelle
  imports Complex_Main "HOL-Library.AList"
begin

section \<open>Values, entities and collections\<close>

text \<open>
  The project of \<^verbatim>\<open>RATapi/project.py\<close> is a pydantic model whose fields are
  fourteen \<^verbatim>\<open>ClassList\<close> collections of model objects, three mode flags and three
  private attributes. The model objects are read and written by field name
  (\<^verbatim>\<open>getattr(model, field, "")\<close>, \<^verbatim>\<open>setattr\<close>, \<^verbatim>\<open>model_dump()\<close>), so an entity is
  its class, its name and the list of its other fields.

  Field values: strings, booleans, floats (carried, never computed with; \<^verbatim>\<open>np.inf\<close> is
  a value of its own) and lists. Enum members are the strings they stand for
  (\<^verbatim>\<open>TypeOptions.Constant\<close> is \<^verbatim>\<open>"constant"\<close>: the keys of \<^verbatim>\<open>values_defined_in\<close> are
  built from it).
\<close>

datatype val = Str string | Bool bool | Number real | NumInf | Lst "val list"

datatype model_class =
  Parameter | ProtectedParameter | Background | Resolution | CustomFile | Data
  | Layer | AbsorptionLayer | DomainContrast | Contrast | ContrastWithRatio

record entity =
  cls :: model_class
  name :: string
  attrs :: "(string \<times> val) list"

record classlist =
  data :: "entity list"
  class_handle :: "model_class option"

text \<open>The attributes of \<^verbatim>\<open>Project\<close> that hold a collection (the keys of \<^verbatim>\<open>model_in_classlist\<close>).\<close>

datatype attr =
  parameters | bulk_in | bulk_out | scalefactors | domain_ratios
  | background_parameters | resolution_parameters | backgrounds | resolutions
  | custom_files | data' | layers | domain_contrasts | contrasts

datatype Calculations = NonPolarised | Domains
datatype LayerModels = StandardLayers | CustomLayers | CustomXY
datatype Geometries = AirSubstrate | SubstrateLiquid

record project_fields =
  project_name :: string
  calculation :: Calculations
  model :: LayerModels
  geometry :: Geometries
  absorption :: bool
  lists :: "attr \<Rightarrow> classlist"

text \<open>
  The private attributes. \<^verbatim>\<open>_all_names\<close> has one key for each collection;
  \<^verbatim>\<open>_protected_parameters\<close> has the keys of \<^verbatim>\<open>parameter_class_lists\<close> and is only ever
  indexed by them: it is a total function that is \<open>[]\<close> elsewhere.
\<close>

record project = project_fields +
  all_names :: "attr \<Rightarrow> string list"
  contrast_model_field :: attr
  protected_parameters :: "attr \<Rightarrow> string list"

text \<open>
  Every raise of the source is a value. A \<^verbatim>\<open>ValueError\<close> raised inside a pydantic
  validator reaches the caller as a \<^verbatim>\<open>ValidationError\<close> that carries it; the messages
  are kept as their parts rather than as formatted text.
\<close>

datatype message =
    ContainsOtherObjects attr model_class
  | DomainsModelLength
  | CustomModelLength
  | MustBeDefinedIn val string attr attr
  | FunctionNotSupported
  | ModelMustBeDefinedIn val attr attr
  | CantDeleteProtected "string list"
  | NotInList string
  | ShapeMismatch
  | DuplicateName string

datatype error =
    ValidationError "message list"
  | ValueError message
  | TypeError message
  | AttributeError
  | KeyError
  | IndexError

subsection \<open>Python's object operations on an entity\<close>

definition vars :: "entity \<Rightarrow> string list" where
  "vars e = ''name'' # map fst (attrs e)"

definition getattr :: "entity \<Rightarrow> string \<Rightarrow> val option" where
  "getattr e f = (if f = ''name'' then Some (Str (name e)) else map_of (attrs e) f)"

definition getattr_default :: "entity \<Rightarrow> string \<Rightarrow> val \<Rightarrow> val" where
  "getattr_default e f d = (case getattr e f of Some v \<Rightarrow> v | None \<Rightarrow> d)"

text \<open>
  \<^verbatim>\<open>setattr(model, field, value)\<close>. The validators only ever assign strings and lists
  to fields other than the name; the name of a model is a string.
\<close>

definition setattr :: "entity \<Rightarrow> string \<Rightarrow> val \<Rightarrow> entity" where
  "setattr e f v =
     (if f = ''name'' then (case v of Str s \<Rightarrow> e\<lparr>name := s\<rparr> | _ \<Rightarrow> e)
      else e\<lparr>attrs := AList.update f v (attrs e)\<rparr>)"

definition model_dump :: "entity \<Rightarrow> (string \<times> val) list" where
  "model_dump e = (''name'', Str (name e)) # attrs e"

text \<open>Python's truth value and \<^verbatim>\<open>len\<close> (a \<^verbatim>\<open>TypeError\<close> on a value that has no length).\<close>

fun truthy :: "val \<Rightarrow> bool" where
  "truthy (Str s) = (s \<noteq> [])"
| "truthy (Bool b) = b"
| "truthy (Number r) = (r \<noteq> 0)"
| "truthy NumInf = True"
| "truthy (Lst xs) = (xs \<noteq> [])"

fun len :: "val \<Rightarrow> nat option" where
  "len (Str s) = Some (length s)"
| "len (Lst xs) = Some (length xs)"
| "len _ = None"

fun elements :: "val \<Rightarrow> val list" where
  "elements (Lst xs) = xs"
| "elements (Str s) = map (\<lambda>c. Str [c]) s"
| "elements _ = []"

text \<open>
  \<^verbatim>\<open>isinstance(element, model)\<close>: \<^verbatim>\<open>ProtectedParameter\<close> is a \<^verbatim>\<open>Parameter\<close> (the
  parameter collections hold both).
\<close>

definition isinstance :: "entity \<Rightarrow> model_class \<Rightarrow> bool" where
  "isinstance e c = (cls e = c \<or> (cls e = ProtectedParameter \<and> c = Parameter))"

subsection \<open>The collection class\<close>

text \<open>
  Modelled from the spec: \<^verbatim>\<open>RATapi/classlist.py\<close> is not among the sources.
  \<^verbatim>\<open>get_names\<close> returns the current ordered name list; \<^verbatim>\<open>get_all_matches(name)\<close>
  returns every (index, field) pair across the collection where some field's value
  currently equals the name.
\<close>

definition get_names :: "classlist \<Rightarrow> string list" where
  "get_names c = map name (data c)"

definition get_all_matches :: "classlist \<Rightarrow> val \<Rightarrow> (nat \<times> string) list" where
  "get_all_matches c v =
     concat (map (\<lambda>(i, e). map (\<lambda>f. (i, f)) (filter (\<lambda>f. getattr e f = Some v) (vars e)))
                 (enumerate 0 (data c)))"

text \<open>Assignments to \<^verbatim>\<open>self.<collection>.data\<close> and \<^verbatim>\<open>self.<collection>._class_handle\<close>.\<close>

definition set_data :: "attr \<Rightarrow> entity list \<Rightarrow> 'a project_fields_scheme \<Rightarrow> 'a project_fields_scheme" where
  "set_data a d p = p\<lparr>lists := (lists p)(a := (lists p a)\<lparr>data := d\<rparr>)\<rparr>"

definition set_class_handle :: "attr \<Rightarrow> model_class \<Rightarrow> 'a project_fields_scheme \<Rightarrow> 'a project_fields_scheme" where
  "set_class_handle a h p = p\<lparr>lists := (lists p)(a := (lists p a)\<lparr>class_handle := Some h\<rparr>)\<rparr>"

abbreviation entities :: "'a project_fields_scheme \<Rightarrow> attr \<Rightarrow> entity list" where
  "entities p a \<equiv> data (lists p a)"

abbreviation names :: "'a project_fields_scheme \<Rightarrow> attr \<Rightarrow> string list" where
  "names p a \<equiv> get_names (lists p a)"

subsection \<open>The model classes\<close>

text \<open>
  Modelled from the spec: the model classes of \<^verbatim>\<open>RATapi/models.py\<close> are not among the
  sources. Constructing a class from keywords maps every keyword it is given into a field of
  the new variant and adds the new variant's own fields with their documented defaults: the
  imaginary-SLD reference of an absorption layer defaults to empty, and the domain ratio
  reference of a domain-aware contrast defaults to the name of the default domain ratio.
  The SLD of a layer is the field \<^verbatim>\<open>SLD\<close>, that of an absorption layer the field
  \<^verbatim>\<open>SLD_real\<close> (the tables of the project and the tests name them so); each class takes the
  other's keyword for it.
\<close>

fun class_defaults :: "model_class \<Rightarrow> (string \<times> val) list" where
  "class_defaults AbsorptionLayer = [(''SLD_imaginary'', Str [])]"
| "class_defaults ContrastWithRatio = [(''domain_ratio'', Str ''Domain Ratio 1'')]"
| "class_defaults _ = []"

fun class_alias :: "model_class \<Rightarrow> string \<Rightarrow> string" where
  "class_alias AbsorptionLayer k = (if k = ''SLD'' then ''SLD_real'' else k)"
| "class_alias Layer k = (if k = ''SLD_real'' then ''SLD'' else k)"
| "class_alias _ k = k"

definition add_defaults :: "(string \<times> val) list \<Rightarrow> (string \<times> val) list \<Rightarrow> (string \<times> val) list" where
  "add_defaults ds kw = kw @ filter (\<lambda>(k, v). k \<notin> set (map fst kw)) ds"

definition construct :: "model_class \<Rightarrow> (string \<times> val) list \<Rightarrow> entity" where
  "construct c kw =
     \<lparr>cls = c,
      name = (case map_of kw ''name'' of Some (Str s) \<Rightarrow> s | _ \<Rightarrow> []),
      attrs = add_defaults (class_defaults c)
                (map (\<lambda>(k, v). (class_alias c k, v)) (AList.delete ''name'' kw))\<rparr>"

text \<open>\<^verbatim>\<open>del params[key]\<close> on a dumped model.\<close>

definition del_key :: "string \<Rightarrow> (string \<times> val) list \<Rightarrow> error + (string \<times> val) list" where
  "del_key k d = (if k \<in> set (map fst d) then Inr (AList.delete k d) else Inl KeyError)"

section \<open>The tables of the module\<close>

definition model_in_classlist :: "attr \<Rightarrow> model_class" where
  "model_in_classlist a =
     (case a of
        parameters \<Rightarrow> Parameter | bulk_in \<Rightarrow> Parameter | bulk_out \<Rightarrow> Parameter
      | scalefactors \<Rightarrow> Parameter | domain_ratios \<Rightarrow> Parameter
      | background_parameters \<Rightarrow> Parameter | resolution_parameters \<Rightarrow> Parameter
      | backgrounds \<Rightarrow> Background | resolutions \<Rightarrow> Resolution
      | custom_files \<Rightarrow> CustomFile | data' \<Rightarrow> Data | layers \<Rightarrow> Layer
      | domain_contrasts \<Rightarrow> DomainContrast | contrasts \<Rightarrow> Contrast)"

text \<open>
  \<^verbatim>\<open>values_defined_in\<close>: the key \<^verbatim>\<open>"backgrounds.constant.value_1"\<close> is the triple of the
  attribute, the type and the field; a key without a type has \<open>None\<close> there.
\<close>

definition value_fields :: "string list" where
  "value_fields = [''value_1'', ''value_2'', ''value_3'', ''value_4'', ''value_5'']"

definition values_defined_in :: "((attr \<times> string option \<times> string) \<times> attr) list" where
  "values_defined_in =
     map (\<lambda>f. ((backgrounds, Some ''constant'', f), background_parameters)) value_fields @
     map (\<lambda>f. ((backgrounds, Some ''data'', f), data')) value_fields @
     map (\<lambda>f. ((resolutions, Some ''constant'', f), resolution_parameters)) value_fields @
     map (\<lambda>f. ((resolutions, Some ''data'', f), data')) value_fields @
     [((layers, None, ''thickness''), parameters),
      ((layers, None, ''SLD''), parameters),
      ((layers, None, ''SLD_real''), parameters),
      ((layers, None, ''SLD_imaginary''), parameters),
      ((layers, None, ''roughness''), parameters),
      ((contrasts, None, ''data''), data'),
      ((contrasts, None, ''background''), backgrounds),
      ((contrasts, None, ''bulk_in''), bulk_in),
      ((contrasts, None, ''bulk_out''), bulk_out),
      ((contrasts, None, ''scalefactor''), scalefactors),
      ((contrasts, None, ''resolution''), resolutions),
      ((contrasts, None, ''domain_ratio''), domain_ratios)]"

text \<open>\<^verbatim>\<open>model_names_used_in\<close>: source collection, consumer collection, consumer fields.\<close>

definition model_names_used_in :: "(attr \<times> attr \<times> string list) list" where
  "model_names_used_in =
     [(background_parameters, backgrounds, value_fields),
      (resolution_parameters, resolutions, value_fields),
      (parameters, layers,
         [''thickness'', ''SLD'', ''SLD_real'', ''SLD_imaginary'', ''roughness'', ''hydration'']),
      (data', contrasts, [''data'']),
      (backgrounds, contrasts, [''background'']),
      (bulk_in, contrasts, [''bulk_in'']),
      (bulk_out, contrasts, [''bulk_out'']),
      (scalefactors, contrasts, [''scalefactor'']),
      (domain_ratios, contrasts, [''domain_ratio'']),
      (resolutions, contrasts, [''resolution''])]"

definition parameter_class_lists :: "attr list" where
  "parameter_class_lists =
     [parameters, background_parameters, scalefactors, bulk_in, bulk_out,
      resolution_parameters, domain_ratios]"

definition class_lists :: "attr list" where
  "class_lists = parameter_class_lists @
     [backgrounds, resolutions, custom_files, data', layers, domain_contrasts, contrasts]"

definition default_domain_ratio :: entity where
  "default_domain_ratio =
     \<lparr>cls = Parameter, name = ''Domain Ratio 1'',
      attrs = [(''min'', Number 0.4), (''value'', Number 0.5), (''max'', Number 0.6),
               (''fit'', Bool False), (''prior_type'', Str ''uniform''),
               (''mu'', Number 0), (''sigma'', NumInf)]\<rparr>"

section \<open>The validators\<close>

text \<open>A loop that raises at the first element that fails, and one that builds a list.\<close>

fun first_raise :: "('a \<Rightarrow> error option) \<Rightarrow> 'a list \<Rightarrow> error option" where
  "first_raise f [] = None"
| "first_raise f (x # xs) = (case f x of Some e \<Rightarrow> Some e | None \<Rightarrow> first_raise f xs)"

fun collect :: "('a \<Rightarrow> error + 'b) \<Rightarrow> 'a list \<Rightarrow> error + 'b list" where
  "collect f [] = Inr []"
| "collect f (x # xs) =
     (case f x of
        Inl e \<Rightarrow> Inl e
      | Inr y \<Rightarrow> (case collect f xs of Inl e \<Rightarrow> Inl e | Inr ys \<Rightarrow> Inr (y # ys)))"

definition get_all_names :: "'a project_fields_scheme \<Rightarrow> attr \<Rightarrow> string list" where
  "get_all_names p = (\<lambda>a. names p a)"

definition protected_names :: "'a project_fields_scheme \<Rightarrow> attr \<Rightarrow> string list" where
  "protected_names p a = map name (filter (\<lambda>e. isinstance e ProtectedParameter) (entities p a))"

definition get_all_protected_parameters :: "'a project_fields_scheme \<Rightarrow> attr \<Rightarrow> string list" where
  "get_all_protected_parameters p =
     (\<lambda>a. if a \<in> set parameter_class_lists then protected_names p a else [])"

definition get_contrast_model_field :: "'a project_fields_scheme \<Rightarrow> attr" where
  "get_contrast_model_field p =
     (if model p = StandardLayers
      then (if calculation p = Domains then domain_contrasts else layers)
      else custom_files)"

definition set_domain_ratios :: "project \<Rightarrow> project" where
  "set_domain_ratios p = (if calculation p \<noteq> Domains then set_data domain_ratios [] p else p)"

definition set_domain_contrasts :: "project \<Rightarrow> project" where
  "set_domain_contrasts p =
     (if \<not> (calculation p = Domains \<and> model p = StandardLayers)
      then set_data domain_contrasts [] p else p)"

definition set_layers :: "project \<Rightarrow> project" where
  "set_layers p = (if model p \<noteq> StandardLayers then set_data layers [] p else p)"

definition set_calculation :: "project \<Rightarrow> error + project" where
  "set_calculation p =
     (case class_handle (lists p contrasts) of
        None \<Rightarrow> Inl AttributeError
      | Some handle \<Rightarrow>
          if calculation p = Domains \<and> handle = Contrast then
            Inr (set_class_handle contrasts ContrastWithRatio
                  (set_data domain_ratios [default_domain_ratio]
                    (set_data contrasts
                       (map (\<lambda>contrast. construct ContrastWithRatio (model_dump contrast))
                            (entities p contrasts)) p)))
          else if calculation p \<noteq> Domains \<and> handle = ContrastWithRatio then
            (case collect (\<lambda>contrast. map_sum id (construct Contrast)
                             (del_key ''domain_ratio'' (model_dump contrast)))
                          (entities p contrasts) of
               Inl e \<Rightarrow> Inl e
             | Inr contrast_list \<Rightarrow>
                 Inr (set_class_handle contrasts Contrast (set_data contrasts contrast_list p)))
          else Inr p)"

definition set_contrast_model_field :: "project \<Rightarrow> project" where
  "set_contrast_model_field p =
     (let model_field = get_contrast_model_field p in
      if model_field \<noteq> contrast_model_field p
      then (set_data contrasts
              (map (\<lambda>contrast. setattr contrast ''model'' (Lst [])) (entities p contrasts)) p)
             \<lparr>contrast_model_field := model_field\<rparr>
      else p)"

definition check_contrast_model_length :: "project \<Rightarrow> error option" where
  "check_contrast_model_length p =
     (if model p = StandardLayers \<and> calculation p = Domains then
        first_raise (\<lambda>contrast.
          case getattr contrast ''model'' of
            None \<Rightarrow> Some AttributeError
          | Some m \<Rightarrow>
              if truthy m then
                (case len m of
                   None \<Rightarrow> Some (TypeError ShapeMismatch)
                 | Some n \<Rightarrow> if n \<noteq> 2 then Some (ValueError DomainsModelLength) else None)
              else None)
          (entities p contrasts)
      else if model p \<noteq> StandardLayers then
        first_raise (\<lambda>contrast.
          case getattr contrast ''model'' of
            None \<Rightarrow> Some AttributeError
          | Some m \<Rightarrow>
              (case len m of
                 None \<Rightarrow> Some (TypeError ShapeMismatch)
               | Some n \<Rightarrow> if n > 1 then Some (ValueError CustomModelLength) else None))
          (entities p contrasts)
      else None)"

definition set_absorption :: "project \<Rightarrow> error + project" where
  "set_absorption p =
     (case class_handle (lists p layers) of
        None \<Rightarrow> Inl AttributeError
      | Some handle \<Rightarrow>
          if absorption p \<and> handle = Layer then
            Inr (set_class_handle layers AbsorptionLayer
                  (set_data layers
                     (map (\<lambda>layer. construct AbsorptionLayer (model_dump layer))
                          (entities p layers)) p))
          else if \<not> absorption p \<and> handle = AbsorptionLayer then
            (case collect (\<lambda>layer. map_sum id (construct Layer)
                             (del_key ''SLD_imaginary'' (model_dump layer)))
                          (entities p layers) of
               Inl e \<Rightarrow> Inl e
             | Inr layer_list \<Rightarrow>
                 Inr (set_class_handle layers Layer (set_data layers layer_list p)))
          else Inr p)"

text \<open>
  \<^verbatim>\<open>update_renamed_models\<close>. The innermost loop assigns the new name to every matched
  field that is registered; the loop over the name pairs runs one pair after the other on
  the consumer collection as the pairs before have left it.
\<close>

definition rewrite_matches ::
  "string list \<Rightarrow> val \<Rightarrow> entity list \<Rightarrow> (nat \<times> string) list \<Rightarrow> entity list" where
  "rewrite_matches field_names new_name d all_matches =
     foldl (\<lambda>d (index, field).
              if field \<in> set field_names then d[index := setattr (d ! index) field new_name] else d)
           d all_matches"

definition rename_pair :: "attr \<Rightarrow> string list \<Rightarrow> project \<Rightarrow> string \<times> string \<Rightarrow> project" where
  "rename_pair uses field_names p pair =
     (case pair of (old_name, new_name) \<Rightarrow>
        let model_names_list = lists p uses;
            all_matches = get_all_matches model_names_list (Str old_name)
        in set_data uses
             (rewrite_matches field_names (Str new_name) (data model_names_list) all_matches) p)"

definition name_diff :: "string list \<Rightarrow> string list \<Rightarrow> (string \<times> string) list" where
  "name_diff old_names new_names = filter (\<lambda>(old, new). old \<noteq> new) (zip old_names new_names)"

definition update_class_list :: "project \<Rightarrow> attr \<times> attr \<times> string list \<Rightarrow> project" where
  "update_class_list p entry =
     (case entry of (class_list, uses, field_names) \<Rightarrow>
        let old_names = all_names p class_list;
            new_names = names p class_list
        in if length old_names = length new_names
           then foldl (rename_pair uses field_names) p (name_diff old_names new_names)
           else p)"

definition update_renamed_models :: "project \<Rightarrow> project" where
  "update_renamed_models p =
     (let p' = foldl update_class_list p model_names_used_in
      in p'\<lparr>all_names := get_all_names p'\<rparr>)"

text \<open>The three helpers of \<^verbatim>\<open>cross_check_model_values\<close>.\<close>

definition check_allowed_values :: "attr \<Rightarrow> string list \<Rightarrow> string list \<Rightarrow> project \<Rightarrow> error option" where
  "check_allowed_values attribute field_list allowed_values p =
     first_raise (\<lambda>model.
        first_raise (\<lambda>field.
           let v = getattr_default model field (Str []) in
           if truthy v \<and> v \<notin> set (map Str allowed_values) then
             (case map_of values_defined_in (attribute, None, field) of
                None \<Rightarrow> Some KeyError
              | Some target \<Rightarrow> Some (ValueError (MustBeDefinedIn v field attribute target)))
           else None)
          field_list)
       (entities p attribute)"

definition check_allowed_background_resolution_values ::
  "attr \<Rightarrow> string list \<Rightarrow> string list \<Rightarrow> string list \<Rightarrow> project \<Rightarrow> error option" where
  "check_allowed_background_resolution_values attribute field_list allowed_constants allowed_data p =
     first_raise (\<lambda>model.
        case getattr model ''type'' of
          None \<Rightarrow> Some AttributeError
        | Some ty \<Rightarrow>
            if ty = Str ''constant'' \<or> ty = Str ''data'' then
              (let allowed_values = (if ty = Str ''constant'' then allowed_constants else allowed_data)
               in first_raise (\<lambda>field.
                    let v = getattr_default model field (Str []) in
                    if truthy v \<and> v \<notin> set (map Str allowed_values) then
                      (case map_of values_defined_in
                              (attribute, Some (case ty of Str s \<Rightarrow> s | _ \<Rightarrow> []), field) of
                         None \<Rightarrow> Some KeyError
                       | Some target \<Rightarrow> Some (ValueError (MustBeDefinedIn v field attribute target)))
                    else None)
                   field_list)
            else Some (ValueError FunctionNotSupported))
       (entities p attribute)"

definition check_contrast_model_allowed_values ::
  "attr \<Rightarrow> string list \<Rightarrow> attr \<Rightarrow> project \<Rightarrow> error option" where
  "check_contrast_model_allowed_values contrast_attribute allowed_values allowed_field p =
     first_raise (\<lambda>contrast.
        case getattr contrast ''model'' of
          None \<Rightarrow> Some AttributeError
        | Some model_values \<Rightarrow>
            if truthy model_values
               \<and> \<not> (\<forall>v \<in> set (elements model_values). v \<in> set (map Str allowed_values))
            then Some (ValueError (ModelMustBeDefinedIn model_values contrast_attribute allowed_field))
            else None)
       (entities p contrast_attribute)"

definition cross_check_model_values :: "project \<Rightarrow> error option" where
  "cross_check_model_values p =
     first_raise (\<lambda>check. check p)
       [check_allowed_background_resolution_values backgrounds value_fields
          (names p background_parameters) (names p data'),
        check_allowed_background_resolution_values resolutions value_fields
          (names p resolution_parameters) (names p data'),
        check_allowed_values layers
          [''thickness'', ''SLD'', ''SLD_real'', ''SLD_imaginary'', ''roughness'']
          (names p parameters),
        check_allowed_values contrasts [''data''] (names p data'),
        check_allowed_values contrasts [''background''] (names p backgrounds),
        check_allowed_values contrasts [''bulk_in''] (names p bulk_in),
        check_allowed_values contrasts [''bulk_out''] (names p bulk_out),
        check_allowed_values contrasts [''scalefactor''] (names p scalefactors),
        check_allowed_values contrasts [''resolution''] (names p resolutions),
        check_allowed_values contrasts [''domain_ratio''] (names p domain_ratios),
        check_contrast_model_allowed_values contrasts
          (names p (contrast_model_field p)) (contrast_model_field p),
        check_contrast_model_allowed_values domain_contrasts (names p layers) layers]"

definition check_protected_parameters :: "project \<Rightarrow> error + project" where
  "check_protected_parameters p =
     (case first_raise (\<lambda>class_list.
             let protected_parameters' = protected_names p class_list in
             if \<not> (\<forall>element \<in> set (protected_parameters p class_list).
                      element \<in> set protected_parameters')
             then Some (ValueError (CantDeleteProtected
                     (filter (\<lambda>param. param \<notin> set protected_parameters')
                             (protected_parameters p class_list))))
             else None)
           parameter_class_lists of
        Some e \<Rightarrow> Inl e
      | None \<Rightarrow> Inr (p\<lparr>protected_parameters := get_all_protected_parameters p\<rparr>))"

subsection \<open>The validation pipeline\<close>

text \<open>
  \<^verbatim>\<open>Project.model_validate(self)\<close> on an instance runs the after-validators in the order
  of their definition, on the instance itself: what the validators before the failing one
  have assigned stays assigned. A \<^verbatim>\<open>ValueError\<close> of a validator becomes a
  \<^verbatim>\<open>ValidationError\<close>; any other exception passes through.
\<close>

definition raised_by_validator :: "error \<Rightarrow> error" where
  "raised_by_validator e = (case e of ValueError m \<Rightarrow> ValidationError [m] | _ \<Rightarrow> e)"

fun run_validators :: "(project \<Rightarrow> error + project) list \<Rightarrow> project \<Rightarrow> error option \<times> project" where
  "run_validators [] p = (None, p)"
| "run_validators (v # vs) p =
     (case v p of
        Inl e \<Rightarrow> (Some (raised_by_validator e), p)
      | Inr p' \<Rightarrow> run_validators vs p')"

definition as_validator :: "(project \<Rightarrow> error option) \<Rightarrow> project \<Rightarrow> error + project" where
  "as_validator c p = (case c p of Some e \<Rightarrow> Inl e | None \<Rightarrow> Inr p)"

definition model_validators :: "(project \<Rightarrow> error + project) list" where
  "model_validators =
     [Inr \<circ> set_domain_ratios,
      Inr \<circ> set_domain_contrasts,
      Inr \<circ> set_layers,
      set_calculation,
      Inr \<circ> set_contrast_model_field,
      as_validator check_contrast_model_length,
      set_absorption,
      Inr \<circ> update_renamed_models,
      as_validator cross_check_model_values,
      check_protected_parameters]"

definition model_validate :: "project \<Rightarrow> error option \<times> project" where
  "model_validate p = run_validators model_validators p"

subsection \<open>The wrapper around the collection routines\<close>

text \<open>
  A routine of a collection is any function of the project that returns a value or raises,
  and leaves the project as it has made it in both cases.
  Modelled from the spec: \<^verbatim>\<open>custom_pydantic_validation_error\<close> is not among the sources;
  the error it builds carries the messages of the one it is given.
\<close>

definition custom_pydantic_validation_error :: "message list \<Rightarrow> message list" where
  "custom_pydantic_validation_error errors = errors"

definition classlist_wrapper ::
  "attr \<Rightarrow> (project \<Rightarrow> (error + 'r) \<times> project) \<Rightarrow> project \<Rightarrow> (error + 'r) \<times> project" where
  "classlist_wrapper class_list func p =
     (let previous_state = entities p class_list;
          (outcome, p') =
             (case func p of
                (Inl e, p1) \<Rightarrow> (Inl e, p1)
              | (Inr return_value, p1) \<Rightarrow>
                  (case model_validate p1 of
                     (Some e, p2) \<Rightarrow> (Inl e, p2)
                   | (None, p2) \<Rightarrow> (Inr return_value, p2)))
      in case outcome of
           Inl (ValidationError errors) \<Rightarrow>
             (Inl (ValidationError (custom_pydantic_validation_error errors)),
              set_data class_list previous_state p')
         | Inl (TypeError m) \<Rightarrow> (Inl (TypeError m), set_data class_list previous_state p')
         | Inl (ValueError m) \<Rightarrow> (Inl (ValueError m), set_data class_list previous_state p')
         | Inl e \<Rightarrow> (Inl e, p')
         | Inr return_value \<Rightarrow> (Inr return_value, p'))"

section \<open>Construction\<close>

text \<open>
  Python's \<^verbatim>\<open>str.title()\<close> on ASCII text: a letter that follows a letter becomes lower
  case, any other letter becomes upper case, and a character that is no letter is kept.
\<close>

definition lowercase :: string where
  "lowercase = ''abcdefghijklmnopqrstuvwxyz''"

definition uppercase :: string where
  "uppercase = ''ABCDEFGHIJKLMNOPQRSTUVWXYZ''"

definition is_lower :: "char \<Rightarrow> bool" where
  "is_lower c = (c \<in> set lowercase)"

definition is_upper :: "char \<Rightarrow> bool" where
  "is_upper c = (c \<in> set uppercase)"

definition to_upper :: "char \<Rightarrow> char" where
  "to_upper c = (case map_of (zip lowercase uppercase) c of Some u \<Rightarrow> u | None \<Rightarrow> c)"

definition to_lower :: "char \<Rightarrow> char" where
  "to_lower c = (case map_of (zip uppercase lowercase) c of Some l \<Rightarrow> l | None \<Rightarrow> c)"

fun title_from :: "bool \<Rightarrow> string \<Rightarrow> string" where
  "title_from previous_is_cased [] = []"
| "title_from previous_is_cased (c # cs) =
     (if is_lower c then (if previous_is_cased then c else to_upper c) # title_from True cs
      else if is_upper c then (if previous_is_cased then to_lower c else c) # title_from True cs
      else c # title_from False cs)"

definition title :: "string \<Rightarrow> string" where
  "title s = title_from False s"

text \<open>
  Modelled from the spec: the routines of \<^verbatim>\<open>RATapi/classlist.py\<close> are not among the
  sources. A collection is addressed by name; a raw operation has no validation of its own
  and only enforces local shape: the value being inserted must match the collection's
  current variant, or the operation fails immediately with a type-mismatch error, and the
  names within a collection stay unique. Names are compared as they are written here (the
  spec leaves the normalisation open). Removing a name that is not there raises, as
  removing from a Python list does.
\<close>

definition ClassList_getitem :: "classlist \<Rightarrow> string \<Rightarrow> error + entity" where
  "ClassList_getitem c n =
     (case find (\<lambda>e. name e = n) (data c) of
        None \<Rightarrow> Inl (ValueError (NotInList n))
      | Some e \<Rightarrow> Inr e)"

definition ClassList_remove :: "classlist \<Rightarrow> string \<Rightarrow> error + classlist" where
  "ClassList_remove c n =
     (case find (\<lambda>e. name e = n) (data c) of
        None \<Rightarrow> Inl (ValueError (NotInList n))
      | Some e \<Rightarrow> Inr (c\<lparr>data := remove1 e (data c)\<rparr>))"

definition ClassList_insert :: "classlist \<Rightarrow> nat \<Rightarrow> entity \<Rightarrow> error + classlist" where
  "ClassList_insert c i e =
     (if (case class_handle c of None \<Rightarrow> False | Some h \<Rightarrow> \<not> isinstance e h)
      then Inl (TypeError ShapeMismatch)
      else if name e \<in> set (get_names c) then Inl (ValueError (DuplicateName (name e)))
      else Inr (c\<lparr>data := take i (data c) @ e # drop i (data c)\<rparr>))"

text \<open>A raw routine of the collection held by an attribute, as a routine of the project.\<close>

definition on_list ::
  "attr \<Rightarrow> (classlist \<Rightarrow> error + classlist) \<Rightarrow> 'a project_fields_scheme
     \<Rightarrow> error + 'a project_fields_scheme" where
  "on_list a f p =
     (case f (lists p a) of
        Inl e \<Rightarrow> Inl e
      | Inr c \<Rightarrow> Inr (p\<lparr>lists := (lists p)(a := c)\<rparr>))"

definition raw_routine ::
  "attr \<Rightarrow> (classlist \<Rightarrow> error + classlist) \<Rightarrow> project \<Rightarrow> (error + unit) \<times> project" where
  "raw_routine a f p =
     (case on_list a f p of
        Inl e \<Rightarrow> (Inl e, p)
      | Inr p' \<Rightarrow> (Inr (), p'))"

text \<open>
  \<^verbatim>\<open>check_class\<close>, the field validator: it runs on thirteen of the collections, in the
  order of the fields, and pydantic reports the failures of all the fields together.
\<close>

definition check_class :: "project_fields \<Rightarrow> attr \<Rightarrow> message list" where
  "check_class f field_name =
     (let model_name0 = model_in_classlist field_name;
          model_name1 = (if field_name = layers \<and> absorption f then AbsorptionLayer else model_name0);
          model_name = (if field_name = contrasts \<and> calculation f = Domains
                        then ContrastWithRatio else model_name1)
      in if \<not> (\<forall>element \<in> set (entities f field_name). isinstance element model_name)
         then [ContainsOtherObjects field_name model_name] else [])"

definition checked_fields :: "attr list" where
  "checked_fields =
     [parameters, bulk_in, bulk_out, scalefactors, background_parameters, backgrounds,
      resolution_parameters, resolutions, custom_files, data', layers, domain_contrasts,
      contrasts]"

definition model_in_classlist_keys :: "attr list" where
  "model_in_classlist_keys =
     [parameters, bulk_in, bulk_out, scalefactors, domain_ratios, background_parameters,
      resolution_parameters, backgrounds, resolutions, custom_files, data', layers,
      domain_contrasts, contrasts]"

definition substrate_roughness :: entity where
  "substrate_roughness =
     \<lparr>cls = ProtectedParameter, name = ''Substrate Roughness'',
      attrs = [(''min'', Number 1), (''value'', Number 3), (''max'', Number 5),
               (''fit'', Bool True), (''prior_type'', Str ''uniform''),
               (''mu'', Number 0), (''sigma'', NumInf)]\<rparr>"

definition simulation :: entity where
  "simulation =
     \<lparr>cls = Data, name = ''Simulation'',
      attrs = [(''simulation_range'', Lst [Number 0.005, Number 0.7])]\<rparr>"

definition init_class_handles :: "project_fields \<Rightarrow> project_fields" where
  "init_class_handles f =
     (let f1 = (if class_handle (lists f layers) = None
                then set_class_handle layers (if absorption f then AbsorptionLayer else Layer) f
                else f);
          f2 = (if class_handle (lists f1 contrasts) = None
                then set_class_handle contrasts
                       (if calculation f1 = Domains then ContrastWithRatio else Contrast) f1
                else f1)
      in foldl (\<lambda>g field_name.
                  if class_handle (lists g field_name) = None
                  then set_class_handle field_name (model_in_classlist field_name) g else g)
               f2 model_in_classlist_keys)"

definition init_substrate_roughness :: "project_fields \<Rightarrow> error + project_fields" where
  "init_substrate_roughness f =
     (if ''Substrate Roughness'' \<notin> set (map title (names f parameters)) then
        on_list parameters (\<lambda>c. ClassList_insert c 0 substrate_roughness) f
      else if ''Substrate Roughness''
                \<notin> set (map title (get_all_protected_parameters f parameters)) then
        (case ClassList_getitem (lists f parameters) ''Substrate Roughness'' of
           Inl e \<Rightarrow> Inl e
         | Inr found \<Rightarrow>
             (let substrate_roughness_values = model_dump found in
              case on_list parameters (\<lambda>c. ClassList_remove c ''Substrate Roughness'') f of
                Inl e \<Rightarrow> Inl e
              | Inr f' \<Rightarrow>
                  on_list parameters
                    (\<lambda>c. ClassList_insert c 0
                            (construct ProtectedParameter substrate_roughness_values)) f'))
      else Inr f)"

definition init_simulation :: "project_fields \<Rightarrow> error + project_fields" where
  "init_simulation f =
     (if ''Simulation'' \<notin> set (map title (names f data'))
      then on_list data' (\<lambda>c. ClassList_insert c 0 simulation) f
      else Inr f)"

definition model_post_init :: "project_fields \<Rightarrow> error + project" where
  "model_post_init f =
     (case init_substrate_roughness (init_class_handles f) of
        Inl e \<Rightarrow> Inl e
      | Inr f1 \<Rightarrow>
          (case init_simulation f1 of
             Inl e \<Rightarrow> Inl e
           | Inr f2 \<Rightarrow>
               Inr \<lparr>project_name = project_name f2, calculation = calculation f2,
                    model = model f2, geometry = geometry f2, absorption = absorption f2,
                    lists = lists f2,
                    all_names = get_all_names f2,
                    contrast_model_field = get_contrast_model_field f2,
                    protected_parameters = get_all_protected_parameters f2\<rparr>))"

text \<open>
  \<^verbatim>\<open>Project(...)\<close>: the field validators, then \<^verbatim>\<open>model_post_init\<close>, then the
  after-validators; the object exists only if none of them raises.
\<close>

definition Project_init :: "project_fields \<Rightarrow> error + project" where
  "Project_init f =
     (case concat (map (check_class f) checked_fields) of
        m # ms \<Rightarrow> Inl (ValidationError (m # ms))
      | [] \<Rightarrow>
          (case model_post_init f of
             Inl e \<Rightarrow> Inl e
           | Inr p \<Rightarrow>
               (case model_validate p of
                  (Some e, p') \<Rightarrow> Inl e
                | (None, p') \<Rightarrow> Inr p')))"

text \<open>The defaults of the fields of \<^verbatim>\<open>Project\<close>.\<close>

definition default_parameter :: "string \<Rightarrow> real \<Rightarrow> real \<Rightarrow> real \<Rightarrow> entity" where
  "default_parameter n lo v hi =
     \<lparr>cls = Parameter, name = n,
      attrs = [(''min'', Number lo), (''value'', Number v), (''max'', Number hi),
               (''fit'', Bool False), (''prior_type'', Str ''uniform''),
               (''mu'', Number 0), (''sigma'', NumInf)]\<rparr>"

definition default_typed :: "model_class \<Rightarrow> string \<Rightarrow> string \<Rightarrow> entity" where
  "default_typed c n v =
     \<lparr>cls = c, name = n, attrs = [(''type'', Str ''constant''), (''value_1'', Str v)]\<rparr>"

definition ClassList :: "entity list \<Rightarrow> classlist" where
  "ClassList init_list =
     \<lparr>data = init_list,
      class_handle = (case init_list of [] \<Rightarrow> None | e # es \<Rightarrow> Some (cls e))\<rparr>"

definition default_lists :: "attr \<Rightarrow> classlist" where
  "default_lists a =
     (case a of
        bulk_in \<Rightarrow> ClassList [default_parameter ''SLD Air'' 0 0 0]
      | bulk_out \<Rightarrow>
          ClassList [default_parameter ''SLD D2O'' (6.2 / 10 ^ 6) (6.35 / 10 ^ 6) (6.35 / 10 ^ 6)]
      | scalefactors \<Rightarrow> ClassList [default_parameter ''Scalefactor 1'' 0.02 0.23 0.25]
      | domain_ratios \<Rightarrow> ClassList [default_parameter ''Domain Ratio 1'' 0.4 0.5 0.6]
      | background_parameters \<Rightarrow>
          ClassList [default_parameter ''Background Param 1'' (1 / 10 ^ 7) (1 / 10 ^ 6) (1 / 10 ^ 5)]
      | backgrounds \<Rightarrow> ClassList [default_typed Background ''Background 1'' ''Background Param 1'']
      | resolution_parameters \<Rightarrow>
          ClassList [default_parameter ''Resolution Param 1'' 0.01 0.03 0.05]
      | resolutions \<Rightarrow> ClassList [default_typed Resolution ''Resolution 1'' ''Resolution Param 1'']
      | _ \<Rightarrow> ClassList [])"

definition default_fields :: project_fields where
  "default_fields =
     \<lparr>project_name = [], calculation = NonPolarised, model = StandardLayers,
      geometry = AirSubstrate, absorption = False, lists = default_lists\<rparr>"

section \<open>Predicates of the proofs\<close>

text \<open>
  \<open>frame F A p p'\<close>: from \<open>p\<close> to \<open>p'\<close> the flags and the private attributes are the same,
  every collection has the same class handle, the same number of entities, with the same
  classes and names in the same order, only fields in \<open>F\<close> have changed, and only in the
  collections in \<open>A\<close>.
\<close>

definition frame :: "string set \<Rightarrow> attr set \<Rightarrow> project \<Rightarrow> project \<Rightarrow> bool" where
  "frame F A p p' \<longleftrightarrow>
     calculation p' = calculation p \<and> model p' = model p \<and> absorption p' = absorption p
     \<and> all_names p' = all_names p \<and> contrast_model_field p' = contrast_model_field p
     \<and> protected_parameters p' = protected_parameters p
     \<and> (\<forall>a. class_handle (lists p' a) = class_handle (lists p a)
            \<and> length (entities p' a) = length (entities p a)
            \<and> (\<forall>i < length (entities p a).
                  cls (entities p' a ! i) = cls (entities p a ! i)
                  \<and> name (entities p' a ! i) = name (entities p a ! i)
                  \<and> (\<forall>f. f \<notin> F \<longrightarrow>
                        getattr (entities p' a ! i) f = getattr (entities p a ! i) f)))
     \<and> (\<forall>a. a \<notin> A \<longrightarrow> lists p' a = lists p a)"

text \<open>The effect of one name pair on the value of a field.\<close>

definition subst_name :: "string \<times> string \<Rightarrow> val option \<Rightarrow> val option" where
  "subst_name pair x = (if x = Some (Str (fst pair)) then Some (Str (snd pair)) else x)"

section \<open>The default project\<close>

text \<open>
  The project that \<^verbatim>\<open>Project()\<close> builds from the defaults of the fields:
  \<open>initial_project\<close> after \<^verbatim>\<open>model_post_init\<close>, \<open>default_project\<close> after the validators.
\<close>

definition default_project_lists :: "attr \<Rightarrow> classlist" where
  "default_project_lists a =
     (case a of
        parameters \<Rightarrow> \<lparr>data = [substrate_roughness], class_handle = Some Parameter\<rparr>
      | domain_ratios \<Rightarrow> \<lparr>data = [], class_handle = Some Parameter\<rparr>
      | data' \<Rightarrow> \<lparr>data = [simulation], class_handle = Some Data\<rparr>
      | _ \<Rightarrow> (default_lists a)\<lparr>class_handle := Some (model_in_classlist a)\<rparr>)"

definition default_project :: project where
  "default_project =
     \<lparr>project_name = [], calculation = NonPolarised, model = StandardLayers,
      geometry = AirSubstrate, absorption = False, lists = default_project_lists,
      all_names = (\<lambda>a. get_names (default_project_lists a)),
      contrast_model_field = layers,
      protected_parameters = (\<lambda>a. if a = parameters then [''Substrate Roughness''] else [])\<rparr>"

definition initial_lists :: "attr \<Rightarrow> classlist" where
  "initial_lists = default_project_lists
     (domain_ratios := \<lparr>data = [default_parameter ''Domain Ratio 1'' 0.4 0.5 0.6],
                        class_handle = Some Parameter\<rparr>)"

definition initial_project :: project where
  "initial_project =
     \<lparr>project_name = [], calculation = NonPolarised, model = StandardLayers,
      geometry = AirSubstrate, absorption = False, lists = initial_lists,
      all_names = (\<lambda>a. get_names (initial_lists a)),
      contrast_model_field = layers,
      protected_parameters = (\<lambda>a. if a = parameters then [''Substrate Roughness''] else [])\<rparr>"

section \<open>Predicates of the claims\<close>





text \<open>
  \<^verbatim>\<open>project.<collection>.remove(name)\<close>: the routine \<^verbatim>\<open>remove\<close> of a collection as
  \<^verbatim>\<open>model_post_init\<close> has wrapped it.
\<close>

definition wrapped_remove :: "attr \<Rightarrow> string \<Rightarrow> project \<Rightarrow> (error + unit) \<times> project" where
  "wrapped_remove a n = classlist_wrapper a (raw_routine a (\<lambda>c. ClassList_remove c n))"

section \<open>Basic facts\<close>

lemma lists_set_data [simp]:
  "lists (set_data a d p) b = (if b = a then (lists p a)\<lparr>data := d\<rparr> else lists p b)"
  by (simp add: set_data_def)

lemma lists_set_class_handle [simp]:
  "lists (set_class_handle a h p) b
     = (if b = a then (lists p a)\<lparr>class_handle := Some h\<rparr> else lists p b)"
  by (simp add: set_class_handle_def)

lemma flags_set_data [simp]:
  "calculation (set_data a d p) = calculation p"
  "model (set_data a d p) = model p"
  "absorption (set_data a d p) = absorption p"
  by (simp_all add: set_data_def)

lemma flags_set_class_handle [simp]:
  "calculation (set_class_handle a h p) = calculation p"
  "model (set_class_handle a h p) = model p"
  "absorption (set_class_handle a h p) = absorption p"
  by (simp_all add: set_class_handle_def)

lemma private_set_data [simp]:
  "all_names (set_data a d p) = all_names p"
  "contrast_model_field (set_data a d p) = contrast_model_field p"
  "protected_parameters (set_data a d p) = protected_parameters p"
  by (simp_all add: set_data_def)

lemma private_set_class_handle [simp]:
  "all_names (set_class_handle a h p) = all_names p"
  "contrast_model_field (set_class_handle a h p) = contrast_model_field p"
  "protected_parameters (set_class_handle a h p) = protected_parameters p"
  by (simp_all add: set_class_handle_def)

section \<open>The wrapper restores the collection or keeps the validated state\<close>

text \<open>
  Claim C1. For a wrapped routine of any collection, whatever the routine is: when the call
  raises a validation, type or value error (from the routine itself or from the validation
  of the whole project that follows it), the entities of the collection after the call are
  those before the call, and the error is the one the routine or the validation raised (a
  validation error rebuilt by \<^verbatim>\<open>custom_pydantic_validation_error\<close>); when the routine
  returns and the validation succeeds, the call returns the value of the routine and the
  project is the validated one.
\<close>

theorem classlist_wrapper_atomic:
  fixes func :: "project \<Rightarrow> (error + 'r) \<times> project"
  assumes "classlist_wrapper class_list func p = (outcome, p')"
  shows "(\<forall>errors. outcome = Inl (ValidationError errors)
            \<longrightarrow> entities p' class_list = entities p class_list)
       \<and> (\<forall>m. outcome = Inl (TypeError m) \<longrightarrow> entities p' class_list = entities p class_list)
       \<and> (\<forall>m. outcome = Inl (ValueError m) \<longrightarrow> entities p' class_list = entities p class_list)
       \<and> (\<forall>e p1. func p = (Inl e, p1) \<longrightarrow>
            outcome = Inl (case e of
                             ValidationError errors \<Rightarrow>
                               ValidationError (custom_pydantic_validation_error errors)
                           | _ \<Rightarrow> e))
       \<and> (\<forall>r p1 e p2. func p = (Inr r, p1) \<and> model_validate p1 = (Some e, p2) \<longrightarrow>
            outcome = Inl (case e of
                             ValidationError errors \<Rightarrow>
                               ValidationError (custom_pydantic_validation_error errors)
                           | _ \<Rightarrow> e))
       \<and> (\<forall>r p1 p2. func p = (Inr r, p1) \<and> model_validate p1 = (None, p2) \<longrightarrow>
            outcome = Inr r \<and> p' = p2)"
proof (cases "func p")
  case (Pair res p1)
  show ?thesis
  proof (cases res)
    case (Inl e)
    with Pair assms show ?thesis
      by (cases e) (auto simp: classlist_wrapper_def)
  next
    case (Inr r)
    show ?thesis
    proof (cases "model_validate p1")
      case validated: (Pair failure p2)
      show ?thesis
      proof (cases failure)
        case None
        with Pair Inr validated assms show ?thesis
          by (auto simp: classlist_wrapper_def)
      next
        case (Some e)
        with Pair Inr validated assms show ?thesis
          by (cases e) (auto simp: classlist_wrapper_def)
      qed
    qed
  qed
qed

section \<open>What the validators change\<close>

subsection \<open>Fields of an entity\<close>

lemma getattr_setattr:
  "f \<noteq> ''name'' \<Longrightarrow> getattr (setattr e f v) g = (if g = f then Some v else getattr e g)"
  by (simp add: getattr_def setattr_def update_conv')

lemma name_setattr [simp]: "f \<noteq> ''name'' \<Longrightarrow> name (setattr e f v) = name e"
  by (simp add: setattr_def)

lemma cls_setattr [simp]: "cls (setattr e f v) = cls e"
  by (simp add: setattr_def split: val.splits)

lemma cls_construct [simp]: "cls (construct c kw) = c"
  by (simp add: construct_def)

lemma name_construct_model_dump [simp]: "name (construct c (model_dump e)) = name e"
  by (simp add: construct_def model_dump_def)

lemma collect_length: "collect f xs = Inr ys \<Longrightarrow> length ys = length xs"
  by (induction xs arbitrary: ys) (auto split: sum.splits)

lemma collect_nth:
  "collect f xs = Inr ys \<Longrightarrow> i < length xs \<Longrightarrow> f (xs ! i) = Inr (ys ! i)"
proof (induction xs arbitrary: ys i)
  case Nil
  then show ?case by simp
next
  case (Cons x xs)
  then show ?case
    by (cases i) (auto split: sum.splits)
qed

lemma first_raise_None: "first_raise f xs = None \<longleftrightarrow> (\<forall>x \<in> set xs. f x = None)"
  by (induction xs) (auto split: option.splits)

subsection \<open>The passes that empty a collection\<close>

lemma lists_set_domain_ratios:
  "lists (set_domain_ratios p) a
     = (if a = domain_ratios \<and> calculation p \<noteq> Domains then (lists p a)\<lparr>data := []\<rparr>
        else lists p a)"
  by (simp add: set_domain_ratios_def)

lemma lists_set_domain_contrasts:
  "lists (set_domain_contrasts p) a
     = (if a = domain_contrasts \<and> \<not> (calculation p = Domains \<and> model p = StandardLayers)
        then (lists p a)\<lparr>data := []\<rparr> else lists p a)"
  by (simp add: set_domain_contrasts_def)

lemma lists_set_layers:
  "lists (set_layers p) a
     = (if a = layers \<and> model p \<noteq> StandardLayers then (lists p a)\<lparr>data := []\<rparr>
        else lists p a)"
  by (simp add: set_layers_def)

lemma flags_set_domain_ratios [simp]:
  "calculation (set_domain_ratios p) = calculation p"
  "model (set_domain_ratios p) = model p"
  "absorption (set_domain_ratios p) = absorption p"
  "all_names (set_domain_ratios p) = all_names p"
  "contrast_model_field (set_domain_ratios p) = contrast_model_field p"
  "protected_parameters (set_domain_ratios p) = protected_parameters p"
  by (simp_all add: set_domain_ratios_def)

lemma flags_set_domain_contrasts [simp]:
  "calculation (set_domain_contrasts p) = calculation p"
  "model (set_domain_contrasts p) = model p"
  "absorption (set_domain_contrasts p) = absorption p"
  "all_names (set_domain_contrasts p) = all_names p"
  "contrast_model_field (set_domain_contrasts p) = contrast_model_field p"
  "protected_parameters (set_domain_contrasts p) = protected_parameters p"
  by (simp_all add: set_domain_contrasts_def)

lemma flags_set_layers [simp]:
  "calculation (set_layers p) = calculation p"
  "model (set_layers p) = model p"
  "absorption (set_layers p) = absorption p"
  "all_names (set_layers p) = all_names p"
  "contrast_model_field (set_layers p) = contrast_model_field p"
  "protected_parameters (set_layers p) = protected_parameters p"
  by (simp_all add: set_layers_def)

subsection \<open>The passes that convert a collection\<close>

lemma set_calculation_flags:
  assumes "set_calculation p = Inr p'"
  shows "calculation p' = calculation p" "model p' = model p" "absorption p' = absorption p"
    "all_names p' = all_names p" "contrast_model_field p' = contrast_model_field p"
    "protected_parameters p' = protected_parameters p"
  using assms
  by (auto simp: set_calculation_def split: option.splits if_splits sum.splits)

lemma set_calculation_lists:
  assumes "set_calculation p = Inr p'"
  shows "a \<noteq> contrasts \<Longrightarrow> a \<noteq> domain_ratios \<Longrightarrow> lists p' a = lists p a"
    and "calculation p \<noteq> Domains \<Longrightarrow> lists p' domain_ratios = lists p domain_ratios"
    and "length (entities p' contrasts) = length (entities p contrasts)"
  using assms
  by (auto simp: set_calculation_def split: option.splits if_splits sum.splits
           dest: collect_length)

lemma set_absorption_flags:
  assumes "set_absorption p = Inr p'"
  shows "calculation p' = calculation p" "model p' = model p" "absorption p' = absorption p"
    "all_names p' = all_names p" "contrast_model_field p' = contrast_model_field p"
    "protected_parameters p' = protected_parameters p"
  using assms
  by (auto simp: set_absorption_def split: option.splits if_splits sum.splits)

lemma set_absorption_lists:
  assumes "set_absorption p = Inr p'"
  shows "a \<noteq> layers \<Longrightarrow> lists p' a = lists p a"
    and "length (entities p' layers) = length (entities p layers)"
  using assms
  by (auto simp: set_absorption_def split: option.splits if_splits sum.splits
           dest: collect_length)

lemma set_contrast_model_field_flags [simp]:
  "calculation (set_contrast_model_field p) = calculation p"
  "model (set_contrast_model_field p) = model p"
  "absorption (set_contrast_model_field p) = absorption p"
  "all_names (set_contrast_model_field p) = all_names p"
  "protected_parameters (set_contrast_model_field p) = protected_parameters p"
  by (simp_all add: set_contrast_model_field_def Let_def)

lemma set_contrast_model_field_lists:
  "a \<noteq> contrasts \<Longrightarrow> lists (set_contrast_model_field p) a = lists p a"
  "length (entities (set_contrast_model_field p) contrasts) = length (entities p contrasts)"
  by (simp_all add: set_contrast_model_field_def Let_def)

lemma contrast_model_field_set_contrast_model_field [simp]:
  "contrast_model_field (set_contrast_model_field p) = get_contrast_model_field p"
  by (simp add: set_contrast_model_field_def Let_def)

subsection \<open>The renaming pass\<close>

lemma frame_refl [simp]: "frame F A p p"
  by (simp add: frame_def)

lemma frame_trans: "frame F A p p' \<Longrightarrow> frame F A p' p'' \<Longrightarrow> frame F A p p''"
  unfolding frame_def by (intro conjI allI impI) simp_all

lemma frame_mono:
  assumes "frame F A p p'" "F \<subseteq> F'" "A \<subseteq> A'"
  shows "frame F' A' p p'"
proof -
  have F: "\<And>f. f \<notin> F' \<Longrightarrow> f \<notin> F" and A: "\<And>a. a \<notin> A' \<Longrightarrow> a \<notin> A"
    using assms(2,3) by auto
  from assms(1) show ?thesis
    unfolding frame_def by (intro conjI allI impI) (simp_all add: F A)
qed

lemma nth_list_update_any:
  "i < length xs \<Longrightarrow> xs[j := x] ! i = (if i = j then x else xs ! i)"
  by (cases "i = j") simp_all

lemma in_get_all_matches:
  "(i, f) \<in> set (get_all_matches c v) \<longleftrightarrow> i < length (data c) \<and> getattr (data c ! i) f = Some v"
proof -
  have vars: "\<And>e. getattr e f = Some v \<Longrightarrow> f \<in> set (vars e)"
    by (auto simp: getattr_def vars_def dest: map_of_SomeD split: if_splits intro: rev_image_eqI)
  have "(i, f) \<in> set (get_all_matches c v)
          \<longleftrightarrow> (\<exists>e. (i, e) \<in> set (enumerate 0 (data c)) \<and> f \<in> set (vars e)
                    \<and> getattr e f = Some v)"
    by (auto simp: get_all_matches_def)
  also have "\<dots> \<longleftrightarrow> i < length (data c) \<and> getattr (data c ! i) f = Some v"
    by (auto simp: in_set_enumerate_eq dest: vars)
  finally show ?thesis .
qed

lemma length_rewrite_matches [simp]:
  "length (rewrite_matches field_names v d ms) = length d"
  unfolding rewrite_matches_def
  by (induction ms arbitrary: d) (auto split: prod.splits)

lemma rewrite_matches_Cons:
  "rewrite_matches field_names v d ((j, g) # ms)
     = rewrite_matches field_names v
         (if g \<in> set field_names then d[j := setattr (d ! j) g v] else d) ms"
  by (simp add: rewrite_matches_def)

lemma rewrite_matches_Nil [simp]: "rewrite_matches field_names v d [] = d"
  by (simp add: rewrite_matches_def)

lemma rewrite_matches_name_cls:
  assumes "''name'' \<notin> set field_names" "i < length d"
  shows "name (rewrite_matches field_names v d ms ! i) = name (d ! i)
       \<and> cls (rewrite_matches field_names v d ms ! i) = cls (d ! i)"
  using assms
proof (induction ms arbitrary: d)
  case Nil
  then show ?case by simp
next
  case (Cons m ms)
  obtain j g where m: "m = (j, g)" by (cases m)
  let ?d = "if g \<in> set field_names then d[j := setattr (d ! j) g v] else d"
  have len: "i < length ?d" using Cons.prems by simp
  have g: "g \<in> set field_names \<Longrightarrow> g \<noteq> ''name''" using Cons.prems by auto
  have step: "name (?d ! i) = name (d ! i) \<and> cls (?d ! i) = cls (d ! i)"
    using Cons.prems g by (auto simp: nth_list_update_any)
  from Cons.IH [OF Cons.prems(1) len] step show ?case
    unfolding m rewrite_matches_Cons by simp
qed

lemma rewrite_matches_getattr:
  assumes "''name'' \<notin> set field_names" "i < length d"
  shows "getattr (rewrite_matches field_names v d ms ! i) f
           = (if (i, f) \<in> set ms \<and> f \<in> set field_names then Some v else getattr (d ! i) f)"
  using assms
proof (induction ms arbitrary: d)
  case Nil
  then show ?case by simp
next
  case (Cons m ms)
  obtain j g where m: "m = (j, g)" by (cases m)
  let ?d = "if g \<in> set field_names then d[j := setattr (d ! j) g v] else d"
  have len: "i < length ?d" using Cons.prems by simp
  have g: "g \<in> set field_names \<Longrightarrow> g \<noteq> ''name''" using Cons.prems by auto
  have step: "getattr (?d ! i) f
                = (if (i, f) = (j, g) \<and> f \<in> set field_names then Some v else getattr (d ! i) f)"
    using Cons.prems g by (auto simp: nth_list_update_any getattr_setattr)
  from Cons.IH [OF Cons.prems(1) len] step show ?case
    unfolding m rewrite_matches_Cons by auto
qed

lemma rename_pair_lists:
  "a \<noteq> uses \<Longrightarrow> lists (rename_pair uses field_names p pair) a = lists p a"
  "class_handle (lists (rename_pair uses field_names p pair) a) = class_handle (lists p a)"
  "length (entities (rename_pair uses field_names p pair) a) = length (entities p a)"
  by (simp_all add: rename_pair_def Let_def split: prod.splits)

lemma rename_pair_flags [simp]:
  "calculation (rename_pair uses field_names p pair) = calculation p"
  "model (rename_pair uses field_names p pair) = model p"
  "absorption (rename_pair uses field_names p pair) = absorption p"
  "all_names (rename_pair uses field_names p pair) = all_names p"
  "contrast_model_field (rename_pair uses field_names p pair) = contrast_model_field p"
  "protected_parameters (rename_pair uses field_names p pair) = protected_parameters p"
  by (simp_all add: rename_pair_def Let_def split: prod.splits)

lemma rename_pair_name_cls:
  assumes "''name'' \<notin> set field_names" "i < length (entities p a)"
  shows "name (entities (rename_pair uses field_names p pair) a ! i) = name (entities p a ! i)"
    and "cls (entities (rename_pair uses field_names p pair) a ! i) = cls (entities p a ! i)"
  using assms rewrite_matches_name_cls [of field_names i "entities p uses"]
  by (auto simp: rename_pair_def Let_def split: prod.splits)

lemma rename_pair_getattr:
  assumes "''name'' \<notin> set field_names" "i < length (entities p uses)"
  shows "getattr (entities (rename_pair uses field_names p pair) uses ! i) f
           = (if f \<in> set field_names then subst_name pair (getattr (entities p uses ! i) f)
              else getattr (entities p uses ! i) f)"
  using assms
  by (cases pair)
     (auto simp: rename_pair_def Let_def rewrite_matches_getattr in_get_all_matches
                 subst_name_def)

lemma rename_pair_frame:
  assumes "''name'' \<notin> set field_names"
  shows "frame (set field_names) {uses} p (rename_pair uses field_names p pair)"
  unfolding frame_def
proof (intro conjI allI impI)
  fix a i f
  assume i: "i < length (entities p a)" and f: "f \<notin> set field_names"
  show "getattr (entities (rename_pair uses field_names p pair) a ! i) f
          = getattr (entities p a ! i) f"
  proof (cases "a = uses")
    case True
    with i f rename_pair_getattr [OF assms, of i p uses pair f] show ?thesis by simp
  next
    case False
    then show ?thesis by (simp add: rename_pair_lists)
  qed
qed (use assms in \<open>simp_all add: rename_pair_lists rename_pair_name_cls\<close>)

lemma foldl_rename_pair_frame:
  assumes "''name'' \<notin> set field_names"
  shows "frame (set field_names) {uses} p (foldl (rename_pair uses field_names) p pairs)"
proof (induction pairs arbitrary: p)
  case Nil
  show ?case by simp
next
  case (Cons pair pairs)
  from frame_trans [OF rename_pair_frame [OF assms] Cons.IH] show ?case by simp
qed

lemma update_class_list_frame:
  assumes "''name'' \<notin> set field_names"
  shows "frame (set field_names) {uses} p (update_class_list p (class_list, uses, field_names))"
  using foldl_rename_pair_frame [OF assms]
  by (simp add: update_class_list_def Let_def)

lemma foldl_update_class_list_frame:
  assumes "\<forall>(class_list, uses, field_names) \<in> set entries.
             ''name'' \<notin> set field_names \<and> set field_names \<subseteq> F \<and> uses \<in> A"
  shows "frame F A p (foldl update_class_list p entries)"
  using assms
proof (induction entries arbitrary: p)
  case Nil
  show ?case by simp
next
  case (Cons entry entries)
  obtain class_list uses field_names where entry: "entry = (class_list, uses, field_names)"
    by (cases entry)
  from Cons.prems entry
  have ok: "''name'' \<notin> set field_names" "set field_names \<subseteq> F" "uses \<in> A"
    and rest: "\<forall>(class_list, uses, field_names) \<in> set entries.
                 ''name'' \<notin> set field_names \<and> set field_names \<subseteq> F \<and> uses \<in> A"
    by auto
  have "frame F A p (update_class_list p entry)"
    unfolding entry
    by (rule frame_mono [OF update_class_list_frame [OF ok(1)]]) (use ok in auto)
  from frame_trans [OF this Cons.IH [OF rest]] show ?case by simp
qed

lemma renamed_frame:
  "frame (set (concat (map (snd \<circ> snd) model_names_used_in)))
         {backgrounds, resolutions, layers, contrasts}
         p (foldl update_class_list p model_names_used_in)"
  by (rule foldl_update_class_list_frame)
     (simp add: model_names_used_in_def value_fields_def)

lemma update_renamed_models_flags [simp]:
  "calculation (update_renamed_models p) = calculation p"
  "model (update_renamed_models p) = model p"
  "absorption (update_renamed_models p) = absorption p"
  "contrast_model_field (update_renamed_models p) = contrast_model_field p"
  "protected_parameters (update_renamed_models p) = protected_parameters p"
  using renamed_frame [of p]
  by (simp_all add: update_renamed_models_def Let_def frame_def)

lemma update_renamed_models_lists:
  "a \<notin> {backgrounds, resolutions, layers, contrasts}
     \<Longrightarrow> lists (update_renamed_models p) a = lists p a"
  "class_handle (lists (update_renamed_models p) a) = class_handle (lists p a)"
  "length (entities (update_renamed_models p) a) = length (entities p a)"
  using renamed_frame [of p]
  by (simp_all add: update_renamed_models_def Let_def frame_def)

lemma update_renamed_models_nth:
  assumes "i < length (entities p a)"
  shows "name (entities (update_renamed_models p) a ! i) = name (entities p a ! i)"
    and "cls (entities (update_renamed_models p) a ! i) = cls (entities p a ! i)"
    and "f \<notin> set (concat (map (snd \<circ> snd) model_names_used_in))
           \<Longrightarrow> getattr (entities (update_renamed_models p) a ! i) f = getattr (entities p a ! i) f"
  using renamed_frame [of p] assms
  by (simp_all add: update_renamed_models_def Let_def frame_def)

lemma update_renamed_models_names [simp]:
  "names (update_renamed_models p) a = names p a"
  by (rule nth_equalityI)
     (simp_all add: get_names_def update_renamed_models_lists update_renamed_models_nth)

lemma all_names_update_renamed_models [simp]:
  "all_names (update_renamed_models p) = get_all_names p"
proof -
  have "get_all_names (update_renamed_models p) = get_all_names p"
    by (simp add: get_all_names_def)
  then show ?thesis
    by (simp add: update_renamed_models_def Let_def get_all_names_def)
qed

subsection \<open>The guard of the protected parameters\<close>

lemma check_protected_parameters_Inr:
  "check_protected_parameters p = Inr p'
     \<Longrightarrow> p' = p\<lparr>protected_parameters := get_all_protected_parameters p\<rparr>"
  by (auto simp: check_protected_parameters_def split: option.splits)

subsection \<open>The passes of a validation that succeeds\<close>

lemma model_validate_success:
  assumes "model_validate p = (None, p')"
  obtains p4 p7 where
    "set_calculation (set_layers (set_domain_contrasts (set_domain_ratios p))) = Inr p4"
    "check_contrast_model_length (set_contrast_model_field p4) = None"
    "set_absorption (set_contrast_model_field p4) = Inr p7"
    "cross_check_model_values (update_renamed_models p7) = None"
    "check_protected_parameters (update_renamed_models p7) = Inr p'"
  using assms
  by (auto simp: model_validate_def model_validators_def as_validator_def
           split: sum.splits option.splits)

section \<open>Collections that the mode flags force to be empty\<close>

lemma model_validate_flags:
  assumes "model_validate p = (None, p')"
  shows "calculation p' = calculation p" "model p' = model p" "absorption p' = absorption p"
proof -
  from assms obtain p4 p7 where steps:
    "set_calculation (set_layers (set_domain_contrasts (set_domain_ratios p))) = Inr p4"
    "set_absorption (set_contrast_model_field p4) = Inr p7"
    "check_protected_parameters (update_renamed_models p7) = Inr p'"
    by (rule model_validate_success)
  note f4 = set_calculation_flags [OF steps(1)]
  note f7 = set_absorption_flags [OF steps(2)]
  note p' = check_protected_parameters_Inr [OF steps(3)]
  show "calculation p' = calculation p" "model p' = model p" "absorption p' = absorption p"
    by (simp_all add: p' f7 f4)
qed

text \<open>
  Claim C5. After every validation of the project that succeeds, the collection
  \<^verbatim>\<open>domain_ratios\<close> is empty unless the calculation is domains, the collection
  \<^verbatim>\<open>domain_contrasts\<close> is empty unless the calculation is domains and the layer model is
  standard layers, and the collection \<^verbatim>\<open>layers\<close> is empty unless the layer model is
  standard layers.
\<close>

theorem forced_empty_after_validation:
  assumes "model_validate p = (None, p')"
  shows "(calculation p' \<noteq> Domains \<longrightarrow> entities p' domain_ratios = [])
       \<and> (\<not> (calculation p' = Domains \<and> model p' = StandardLayers)
            \<longrightarrow> entities p' domain_contrasts = [])
       \<and> (model p' \<noteq> StandardLayers \<longrightarrow> entities p' layers = [])"
proof -
  from assms obtain p4 p7 where steps:
    "set_calculation (set_layers (set_domain_contrasts (set_domain_ratios p))) = Inr p4"
    "set_absorption (set_contrast_model_field p4) = Inr p7"
    "check_protected_parameters (update_renamed_models p7) = Inr p'"
    by (rule model_validate_success)
  let ?p3 = "set_layers (set_domain_contrasts (set_domain_ratios p))"
  note flags = model_validate_flags [OF assms]
  note l4 = set_calculation_lists [OF steps(1)]
  note l7 = set_absorption_lists [OF steps(2)]
  note p' = check_protected_parameters_Inr [OF steps(3)]
  have ratios: "entities p' domain_ratios = []" if "calculation p \<noteq> Domains"
  proof -
    have "entities ?p3 domain_ratios = []"
      using that by (simp add: lists_set_layers lists_set_domain_contrasts lists_set_domain_ratios)
    moreover have "lists p4 domain_ratios = lists ?p3 domain_ratios"
      using that by (intro l4(2)) simp
    ultimately show ?thesis
      by (simp add: p' update_renamed_models_lists l7 set_contrast_model_field_lists)
  qed
  have domain: "entities p' domain_contrasts = []"
    if "\<not> (calculation p = Domains \<and> model p = StandardLayers)"
  proof -
    have "entities ?p3 domain_contrasts = []"
      using that by (simp add: lists_set_layers lists_set_domain_contrasts)
    then show ?thesis
      by (simp add: p' update_renamed_models_lists l7 set_contrast_model_field_lists l4)
  qed
  have layer: "entities p' layers = []" if "model p \<noteq> StandardLayers"
  proof -
    have "entities ?p3 layers = []"
      using that by (simp add: lists_set_layers)
    then have "length (entities p7 layers) = 0"
      by (simp add: l7 set_contrast_model_field_lists l4)
    then have "length (entities p' layers) = 0"
      by (simp add: p' update_renamed_models_lists)
    then show ?thesis by simp
  qed
  from ratios domain layer show ?thesis
    by (simp add: flags)
qed

section \<open>Construction of a project\<close>

lemma all_keys: "a \<in> set model_in_classlist_keys"
  by (cases a) (simp_all add: model_in_classlist_keys_def)

lemma foldl_handles:
  "lists (foldl (\<lambda>g field_name.
                  if class_handle (lists g field_name) = None
                  then set_class_handle field_name (model_in_classlist field_name) g else g)
               (g :: project_fields) ks) a
     = (if a \<in> set ks \<and> class_handle (lists g a) = None
        then (lists g a)\<lparr>class_handle := Some (model_in_classlist a)\<rparr> else lists g a)"
  by (induction ks arbitrary: g) auto

lemma foldl_handles_flags:
  "calculation (foldl (\<lambda>g field_name.
                  if class_handle (lists g field_name) = None
                  then set_class_handle field_name (model_in_classlist field_name) g else g)
               (g :: project_fields) ks) = calculation g"
  "model (foldl (\<lambda>g field_name.
                  if class_handle (lists g field_name) = None
                  then set_class_handle field_name (model_in_classlist field_name) g else g)
               (g :: project_fields) ks) = model g"
  "absorption (foldl (\<lambda>g field_name.
                  if class_handle (lists g field_name) = None
                  then set_class_handle field_name (model_in_classlist field_name) g else g)
               (g :: project_fields) ks) = absorption g"
  by (induction ks arbitrary: g) auto

lemma init_class_handles_flags [simp]:
  "calculation (init_class_handles f) = calculation f"
  "model (init_class_handles f) = model f"
  "absorption (init_class_handles f) = absorption f"
  by (simp_all add: init_class_handles_def Let_def foldl_handles_flags)

lemma entities_init_class_handles [simp]:
  "entities (init_class_handles f) a = entities f a"
  by (simp add: init_class_handles_def Let_def foldl_handles)

lemma class_handle_init_class_handles:
  "class_handle (lists (init_class_handles f) a)
     = Some (case class_handle (lists f a) of
               Some h \<Rightarrow> h
             | None \<Rightarrow>
                 if a = layers then (if absorption f then AbsorptionLayer else Layer)
                 else if a = contrasts
                 then (if calculation f = Domains then ContrastWithRatio else Contrast)
                 else model_in_classlist a)"
  by (auto simp: init_class_handles_def Let_def foldl_handles all_keys split: option.splits)

lemma model_validate_lists:
  assumes "model_validate p = (None, p')"
    and "a \<notin> {domain_ratios, domain_contrasts, layers, contrasts, backgrounds, resolutions}"
  shows "lists p' a = lists p a"
proof -
  from assms(1) obtain p4 p7 where steps:
    "set_calculation (set_layers (set_domain_contrasts (set_domain_ratios p))) = Inr p4"
    "set_absorption (set_contrast_model_field p4) = Inr p7"
    "check_protected_parameters (update_renamed_models p7) = Inr p'"
    by (rule model_validate_success)
  note l4 = set_calculation_lists [OF steps(1)]
  note l7 = set_absorption_lists [OF steps(2)]
  note p' = check_protected_parameters_Inr [OF steps(3)]
  from assms(2) show ?thesis
    by (simp add: p' update_renamed_models_lists l7 set_contrast_model_field_lists l4
                  lists_set_layers lists_set_domain_contrasts lists_set_domain_ratios)
qed

lemma title_substrate_roughness: "title ''Substrate Roughness'' = ''Substrate Roughness''"
  by (simp add: title_def lowercase_def uppercase_def is_lower_def is_upper_def
                to_upper_def to_lower_def)

lemma title_simulation: "title ''Simulation'' = ''Simulation''"
  by (simp add: title_def lowercase_def uppercase_def is_lower_def is_upper_def
                to_upper_def to_lower_def)

lemma init_simulation_lists:
  assumes "init_simulation f = Inr f'"
  shows "a \<noteq> data' \<Longrightarrow> lists f' a = lists f a"
    and "calculation f' = calculation f" "model f' = model f" "absorption f' = absorption f"
  using assms
  by (auto simp: init_simulation_def on_list_def split: if_splits sum.splits)

lemma init_substrate_roughness_lists:
  assumes "init_substrate_roughness f = Inr f'"
  shows "a \<noteq> parameters \<Longrightarrow> lists f' a = lists f a"
    and "calculation f' = calculation f" "model f' = model f" "absorption f' = absorption f"
  using assms
  by (auto simp: init_substrate_roughness_def on_list_def Let_def split: if_splits sum.splits)

lemma init_substrate_roughness_absent:
  assumes "init_substrate_roughness f = Inr f'"
    and "''Substrate Roughness'' \<notin> set (map title (names f parameters))"
  shows "entities f' parameters = substrate_roughness # entities f parameters"
  using assms
  by (auto simp: init_substrate_roughness_def on_list_def ClassList_insert_def
           split: if_splits sum.splits)

lemma init_substrate_roughness_unprotected:
  assumes "init_substrate_roughness f = Inr f'"
    and "''Substrate Roughness'' \<in> set (map title (names f parameters))"
    and "''Substrate Roughness'' \<notin> set (map title (protected_names f parameters))"
  shows "\<exists>found. find (\<lambda>e. name e = ''Substrate Roughness'') (entities f parameters) = Some found
           \<and> entities f' parameters
               = construct ProtectedParameter (model_dump found)
                   # remove1 found (entities f parameters)"
  using assms
  by (auto simp: init_substrate_roughness_def on_list_def ClassList_insert_def
                 ClassList_getitem_def ClassList_remove_def Let_def
                 get_all_protected_parameters_def parameter_class_lists_def
           split: if_splits sum.splits option.splits)

lemma init_substrate_roughness_protected:
  assumes "init_substrate_roughness f = Inr f'"
    and "''Substrate Roughness'' \<in> set (map title (protected_names f parameters))"
  shows "f' = f"
proof -
  have "set (protected_names f parameters) \<subseteq> set (names f parameters)"
    by (auto simp: protected_names_def get_names_def)
  with assms(2) have "''Substrate Roughness'' \<in> set (map title (names f parameters))"
    by auto
  with assms show ?thesis
    by (simp add: init_substrate_roughness_def get_all_protected_parameters_def
                  parameter_class_lists_def)
qed

section \<open>Evaluating the construction and the validation\<close>

lemma name_diff_same [simp]: "name_diff xs xs = []"
  by (induction xs) (simp_all add: name_diff_def)

lemma update_class_list_settled:
  assumes "all_names p class_list = names p class_list
           \<or> length (all_names p class_list) \<noteq> length (names p class_list)"
  shows "update_class_list p (class_list, uses, field_names) = p"
  using assms by (auto simp: update_class_list_def Let_def)

lemma foldl_update_class_list_settled:
  assumes "\<forall>(class_list, uses, field_names) \<in> set entries.
             all_names p class_list = names p class_list
             \<or> length (all_names p class_list) \<noteq> length (names p class_list)"
  shows "foldl update_class_list p entries = p"
  using assms
proof (induction entries)
  case Nil
  show ?case by simp
next
  case (Cons entry entries)
  obtain class_list uses field_names where entry: "entry = (class_list, uses, field_names)"
    by (cases entry)
  from Cons.prems have "update_class_list p entry = p"
    unfolding entry by (intro update_class_list_settled) simp
  with Cons show ?case by simp
qed

lemma update_renamed_models_settled:
  assumes "\<forall>class_list. all_names p class_list = names p class_list
             \<or> length (all_names p class_list) \<noteq> length (names p class_list)"
  shows "update_renamed_models p = p\<lparr>all_names := get_all_names p\<rparr>"
proof -
  have "foldl update_class_list p model_names_used_in = p"
    by (rule foldl_update_class_list_settled) (use assms in auto)
  then show ?thesis
    by (simp add: update_renamed_models_def)
qed

lemma model_validate_plain:
  assumes "calculation p = NonPolarised" "model p = StandardLayers" "\<not> absorption p"
    and "class_handle (lists p contrasts) = Some Contrast"
    and "class_handle (lists p layers) = Some Layer"
    and "contrast_model_field p = layers"
  shows "model_validate p
           = (let p8 = update_renamed_models (set_domain_contrasts (set_domain_ratios p)) in
              case cross_check_model_values p8 of
                Some e \<Rightarrow> (Some (raised_by_validator e), p8)
              | None \<Rightarrow>
                  (case check_protected_parameters p8 of
                     Inl e \<Rightarrow> (Some (raised_by_validator e), p8)
                   | Inr p' \<Rightarrow> (None, p')))"
proof -
  let ?p2 = "set_domain_contrasts (set_domain_ratios p)"
  have p3: "set_layers ?p2 = ?p2"
    using assms by (simp add: set_layers_def)
  have p4: "set_calculation ?p2 = Inr ?p2"
    using assms
    by (simp add: set_calculation_def lists_set_domain_contrasts lists_set_domain_ratios)
  have p5: "set_contrast_model_field ?p2 = ?p2"
    using assms by (simp add: set_contrast_model_field_def get_contrast_model_field_def)
  have p6: "check_contrast_model_length ?p2 = None"
    using assms by (simp add: check_contrast_model_length_def)
  have p7: "set_absorption ?p2 = Inr ?p2"
    using assms
    by (simp add: set_absorption_def lists_set_domain_contrasts lists_set_domain_ratios)
  show ?thesis
    by (simp add: model_validate_def model_validators_def as_validator_def p3 p4 p5 p6 p7
                  Let_def split: option.splits sum.splits)
qed

lemma lists_init_class_handles:
  "lists (init_class_handles f) a
     = \<lparr>data = entities f a,
        class_handle = Some (case class_handle (lists f a) of
               Some h \<Rightarrow> h
             | None \<Rightarrow>
                 if a = layers then (if absorption f then AbsorptionLayer else Layer)
                 else if a = contrasts
                 then (if calculation f = Domains then ContrastWithRatio else Contrast)
                 else model_in_classlist a)\<rparr>"
  by (rule classlist.equality) (simp_all add: class_handle_init_class_handles)

lemma foldl_handles_other:
  "project_name (foldl (\<lambda>g field_name.
                  if class_handle (lists g field_name) = None
                  then set_class_handle field_name (model_in_classlist field_name) g else g)
               (g :: project_fields) ks) = project_name g"
  "geometry (foldl (\<lambda>g field_name.
                  if class_handle (lists g field_name) = None
                  then set_class_handle field_name (model_in_classlist field_name) g else g)
               (g :: project_fields) ks) = geometry g"
  by (induction ks arbitrary: g) (auto simp: set_class_handle_def)

lemma other_init_class_handles [simp]:
  "project_name (init_class_handles f) = project_name f"
  "geometry (init_class_handles f) = geometry f"
  by (simp_all add: init_class_handles_def Let_def foldl_handles_other set_class_handle_def)

lemma init_substrate_roughness_absent_eval:
  assumes "''Substrate Roughness'' \<notin> set (map title (names f parameters))"
    and "class_handle (lists f parameters) = Some Parameter"
  shows "init_substrate_roughness f
           = Inr (f\<lparr>lists := (lists f)(parameters :=
                     (lists f parameters)\<lparr>data := substrate_roughness # entities f parameters\<rparr>)\<rparr>)"
proof -
  have "''Substrate Roughness'' \<notin> set (names f parameters)"
    using assms(1) title_substrate_roughness by force
  then have "name substrate_roughness \<notin> set (get_names (lists f parameters))"
    by (simp add: substrate_roughness_def)
  moreover have "isinstance substrate_roughness Parameter"
    by (simp add: isinstance_def substrate_roughness_def)
  ultimately show ?thesis
    using assms by (simp add: init_substrate_roughness_def on_list_def ClassList_insert_def)
qed

lemma init_simulation_absent_eval:
  assumes "''Simulation'' \<notin> set (map title (names f data'))"
    and "class_handle (lists f data') = Some Data"
  shows "init_simulation f
           = Inr (f\<lparr>lists := (lists f)(data' :=
                     (lists f data')\<lparr>data := simulation # entities f data'\<rparr>)\<rparr>)"
proof -
  have "''Simulation'' \<notin> set (names f data')"
    using assms(1) title_simulation by force
  then have "name simulation \<notin> set (get_names (lists f data'))"
    by (simp add: simulation_def)
  moreover have "isinstance simulation Data"
    by (simp add: isinstance_def simulation_def)
  ultimately show ?thesis
    using assms by (simp add: init_simulation_def on_list_def ClassList_insert_def)
qed

lemma default_handles:
  "lists (init_class_handles default_fields) a
     = (default_lists a)\<lparr>class_handle := Some (model_in_classlist a)\<rparr>"
  by (cases a)
     (simp_all add: lists_init_class_handles default_fields_def default_lists_def
                    ClassList_def model_in_classlist_def default_parameter_def
                    default_typed_def)

lemma post_init_default: "model_post_init default_fields = Inr initial_project"
proof -
  let ?f0 = "init_class_handles default_fields"
  let ?f1 = "?f0\<lparr>lists := (lists ?f0)(parameters :=
               (lists ?f0 parameters)\<lparr>data := substrate_roughness # entities ?f0 parameters\<rparr>)\<rparr>"
  let ?f2 = "?f1\<lparr>lists := (lists ?f1)(data' :=
               (lists ?f1 data')\<lparr>data := simulation # entities ?f1 data'\<rparr>)\<rparr>"
  have s1: "init_substrate_roughness ?f0 = Inr ?f1"
    by (rule init_substrate_roughness_absent_eval)
       (simp_all add: get_names_def default_handles default_lists_def ClassList_def
                      model_in_classlist_def)
  have s2: "init_simulation ?f1 = Inr ?f2"
    by (rule init_simulation_absent_eval)
       (simp_all add: get_names_def default_handles default_lists_def ClassList_def
                      model_in_classlist_def)
  have lists: "lists ?f2 = initial_lists"
  proof
    fix a show "lists ?f2 a = initial_lists a"
      by (cases a)
         (simp_all add: default_handles initial_lists_def default_project_lists_def
                        default_lists_def ClassList_def model_in_classlist_def
                        default_parameter_def)
  qed
  have flags: "calculation ?f2 = NonPolarised" "model ?f2 = StandardLayers"
    "absorption ?f2 = False" "project_name ?f2 = []" "geometry ?f2 = AirSubstrate"
    by (simp_all add: default_fields_def)
  have names: "get_all_names ?f2 = (\<lambda>a. get_names (initial_lists a))"
    unfolding get_all_names_def lists ..
  have protected: "get_all_protected_parameters ?f2
                     = (\<lambda>a. if a = parameters then [''Substrate Roughness''] else [])"
  proof
    fix a
    show "get_all_protected_parameters ?f2 a
            = (if a = parameters then [''Substrate Roughness''] else [])"
      unfolding get_all_protected_parameters_def protected_names_def lists
      by (cases a)
         (simp_all add: initial_lists_def default_project_lists_def default_lists_def
                        ClassList_def parameter_class_lists_def isinstance_def
                        substrate_roughness_def default_parameter_def default_typed_def
                        simulation_def)
  qed
  have field: "get_contrast_model_field ?f2 = layers"
    by (simp add: get_contrast_model_field_def default_fields_def)
  show ?thesis
    unfolding model_post_init_def initial_project_def
    by (simp only: s1 s2 sum.case flags names protected field lists)
qed

lemmas fixture_defs = default_project_lists_def default_lists_def ClassList_def
  model_in_classlist_def default_parameter_def default_typed_def substrate_roughness_def
  simulation_def

lemmas check_defs = cross_check_model_values_def check_allowed_values_def
  check_allowed_background_resolution_values_def check_contrast_model_allowed_values_def
  value_fields_def values_defined_in_def getattr_default_def getattr_def get_names_def

lemma cross_check_default:
  assumes "lists p = default_project_lists" "contrast_model_field p = layers"
  shows "cross_check_model_values p = None"
  by (simp add: check_defs assms fixture_defs)

lemma validate_initial_project: "model_validate initial_project = (None, default_project)"
proof -
  let ?p2 = "set_domain_contrasts (set_domain_ratios initial_project)"
  have cleared: "initial_lists
                   (domain_ratios := (initial_lists domain_ratios)\<lparr>data := []\<rparr>,
                    domain_contrasts := (initial_lists domain_contrasts)\<lparr>data := []\<rparr>)
                 = default_project_lists"
  proof
    fix a
    show "(initial_lists
             (domain_ratios := (initial_lists domain_ratios)\<lparr>data := []\<rparr>,
              domain_contrasts := (initial_lists domain_contrasts)\<lparr>data := []\<rparr>)) a
          = default_project_lists a"
      by (cases a) (simp_all add: initial_lists_def fixture_defs)
  qed
  have p2: "?p2 = initial_project\<lparr>lists := default_project_lists\<rparr>"
    by (simp add: set_domain_ratios_def set_domain_contrasts_def set_data_def
                  initial_project_def cleared)
  have settled: "update_renamed_models ?p2 = ?p2\<lparr>all_names := get_all_names ?p2\<rparr>"
  proof (rule update_renamed_models_settled, rule allI)
    fix class_list
    show "all_names ?p2 class_list = names ?p2 class_list
          \<or> length (all_names ?p2 class_list) \<noteq> length (names ?p2 class_list)"
      unfolding p2
      by (cases class_list)
         (simp_all add: initial_project_def initial_lists_def get_names_def fixture_defs)
  qed
  have p8: "update_renamed_models ?p2
              = initial_project\<lparr>lists := default_project_lists,
                                all_names := (\<lambda>a. get_names (default_project_lists a))\<rparr>"
    unfolding settled unfolding p2 by (simp add: get_all_names_def)
  have checked: "cross_check_model_values (update_renamed_models ?p2) = None"
    unfolding p8 by (rule cross_check_default) (simp_all add: initial_project_def)
  have guarded: "check_protected_parameters (update_renamed_models ?p2) = Inr default_project"
  proof -
    let ?q = "initial_project\<lparr>lists := default_project_lists,
                all_names := (\<lambda>a. get_names (default_project_lists a))\<rparr>"
    have kept: "protected_names ?q a = protected_parameters ?q a"
      if "a \<in> set parameter_class_lists" for a
      using that
      by (auto simp: protected_names_def initial_project_def parameter_class_lists_def
                     isinstance_def fixture_defs)
    have none: "first_raise (\<lambda>class_list.
             let protected_parameters' = protected_names ?q class_list in
             if \<not> (\<forall>element \<in> set (protected_parameters ?q class_list).
                      element \<in> set protected_parameters')
             then Some (ValueError (CantDeleteProtected
                     (filter (\<lambda>param. param \<notin> set protected_parameters')
                             (protected_parameters ?q class_list))))
             else None)
           parameter_class_lists = None"
      by (simp add: first_raise_None kept Let_def)
    have again: "get_all_protected_parameters ?q
            = (\<lambda>a. if a = parameters then [''Substrate Roughness''] else [])"
    proof
      fix a
      show "get_all_protected_parameters ?q a
              = (if a = parameters then [''Substrate Roughness''] else [])"
        unfolding get_all_protected_parameters_def protected_names_def
        by (cases a)
           (simp_all add: initial_project_def parameter_class_lists_def isinstance_def
                          fixture_defs)
    qed
    show ?thesis
      unfolding p8 check_protected_parameters_def none again
      by (simp add: initial_project_def default_project_def)
  qed
  have "model_validate initial_project
          = (let p8 = update_renamed_models ?p2 in
             case cross_check_model_values p8 of
               Some e \<Rightarrow> (Some (raised_by_validator e), p8)
             | None \<Rightarrow>
                 (case check_protected_parameters p8 of
                    Inl e \<Rightarrow> (Some (raised_by_validator e), p8)
                  | Inr p' \<Rightarrow> (None, p')))"
    by (rule model_validate_plain)
       (simp_all add: initial_project_def initial_lists_def fixture_defs)
  then show ?thesis
    by (simp add: Let_def checked guarded)
qed

lemma Project_init_default: "Project_init default_fields = Inr default_project"
proof -
  have checked: "concat (map (check_class default_fields) checked_fields) = []"
    by (simp add: checked_fields_def check_class_def default_fields_def isinstance_def
                  fixture_defs)
  show ?thesis
    unfolding Project_init_def checked
    by (simp add: post_init_default validate_initial_project)
qed

text \<open>
  An instance of the theorem of claim C5: the validation that ends the construction of the
  default project empties the collection \<^verbatim>\<open>domain_ratios\<close>, which holds its default entry
  before.
\<close>

theorem forced_empty_after_validation_witness:
  "model_validate initial_project = (None, default_project)
   \<and> entities initial_project domain_ratios \<noteq> []
   \<and> calculation default_project \<noteq> Domains
   \<and> entities default_project domain_ratios = []
   \<and> entities default_project domain_contrasts = []"
proof -
  have "calculation default_project = NonPolarised"
    by (simp add: default_project_def)
  moreover have "entities initial_project domain_ratios \<noteq> []"
    by (simp add: initial_project_def initial_lists_def)
  ultimately show ?thesis
    using forced_empty_after_validation [OF validate_initial_project]
    by (simp add: validate_initial_project)
qed

section \<open>References after a validation that succeeds\<close>








section \<open>A mutation that the validation rejects\<close>

lemma set_data_same: "entities p a = d \<Longrightarrow> set_data a d p = p"
  by (auto simp: set_data_def fun_upd_idem_iff)

lemma checks_all_names [simp]:
  "check_allowed_values a fs allowed (p\<lparr>all_names := x\<rparr>) = check_allowed_values a fs allowed p"
  "check_allowed_background_resolution_values a fs allowed_constants allowed_data
     (p\<lparr>all_names := x\<rparr>)
     = check_allowed_background_resolution_values a fs allowed_constants allowed_data p"
  "check_contrast_model_allowed_values a allowed allowed_field (p\<lparr>all_names := x\<rparr>)
     = check_contrast_model_allowed_values a allowed allowed_field p"
  by (simp_all add: check_allowed_values_def check_allowed_background_resolution_values_def
                    check_contrast_model_allowed_values_def)

lemma first_raise_cong:
  "(\<And>x. x \<in> set xs \<Longrightarrow> f x = g x) \<Longrightarrow> first_raise f xs = first_raise g xs"
  by (induction xs) (auto split: option.splits)

lemma cross_check_all_names [simp]:
  "cross_check_model_values (p\<lparr>all_names := x\<rparr>) = cross_check_model_values p"
proof -
  have same: "lists (p\<lparr>all_names := x\<rparr>) = lists p"
    "contrast_model_field (p\<lparr>all_names := x\<rparr>) = contrast_model_field p"
    by simp_all
  show ?thesis
    unfolding cross_check_model_values_def same
    by (rule first_raise_cong) auto
qed

lemma model_validate_settled:
  assumes "calculation p = NonPolarised" "model p = StandardLayers" "\<not> absorption p"
    and "class_handle (lists p contrasts) = Some Contrast"
    and "class_handle (lists p layers) = Some Layer"
    and "contrast_model_field p = layers"
    and "entities p domain_ratios = []" "entities p domain_contrasts = []"
    and "\<forall>class_list. all_names p class_list = names p class_list
           \<or> length (all_names p class_list) \<noteq> length (names p class_list)"
  shows "model_validate p
           = (let p8 = p\<lparr>all_names := get_all_names p\<rparr> in
              case cross_check_model_values p of
                Some e \<Rightarrow> (Some (raised_by_validator e), p8)
              | None \<Rightarrow>
                  (case check_protected_parameters p8 of
                     Inl e \<Rightarrow> (Some (raised_by_validator e), p8)
                   | Inr p' \<Rightarrow> (None, p')))"
proof -
  have p2: "set_domain_contrasts (set_domain_ratios p) = p"
    using assms(1,7,8)
    by (simp add: set_domain_ratios_def set_domain_contrasts_def set_data_same)
  have p8: "update_renamed_models p = p\<lparr>all_names := get_all_names p\<rparr>"
    by (rule update_renamed_models_settled) (rule assms(9))
  show ?thesis
    unfolding model_validate_plain [OF assms(1-6)] p2 p8
    by (simp add: Let_def)
qed

lemma check_protected_parameters_kept:
  assumes "\<forall>a \<in> set parameter_class_lists.
             set (protected_parameters p a) \<subseteq> set (protected_names p a)"
  shows "check_protected_parameters p
           = Inr (p\<lparr>protected_parameters := get_all_protected_parameters p\<rparr>)"
proof -
  have "first_raise (\<lambda>class_list.
             let protected_parameters' = protected_names p class_list in
             if \<not> (\<forall>element \<in> set (protected_parameters p class_list).
                      element \<in> set protected_parameters')
             then Some (ValueError (CantDeleteProtected
                     (filter (\<lambda>param. param \<notin> set protected_parameters')
                             (protected_parameters p class_list))))
             else None)
           parameter_class_lists = None"
    unfolding first_raise_None using assms by (auto simp: Let_def)
  then show ?thesis
    by (simp add: check_protected_parameters_def)
qed

text \<open>The default project after the raw removal of the protected parameter.\<close>

lemma raw_remove_substrate_roughness:
  "raw_routine parameters (\<lambda>c. ClassList_remove c ''Substrate Roughness'') default_project
     = (Inr (), set_data parameters [] default_project)"
  by (simp add: raw_routine_def on_list_def ClassList_remove_def set_data_def
                default_project_def default_project_lists_def substrate_roughness_def)

lemma validate_without_substrate_roughness:
  "model_validate (set_data parameters [] default_project)
     = (Some (ValidationError [CantDeleteProtected [''Substrate Roughness'']]),
        (set_data parameters [] default_project)
          \<lparr>all_names := get_all_names (set_data parameters [] default_project)\<rparr>)"
proof -
  let ?p = "set_data parameters [] default_project"
  let ?p8 = "?p\<lparr>all_names := get_all_names ?p\<rparr>"
  have settled: "\<forall>class_list. all_names ?p class_list = names ?p class_list
           \<or> length (all_names ?p class_list) \<noteq> length (names ?p class_list)"
  proof
    fix class_list
    show "all_names ?p class_list = names ?p class_list
           \<or> length (all_names ?p class_list) \<noteq> length (names ?p class_list)"
      by (cases class_list) (simp_all add: default_project_def get_names_def fixture_defs)
  qed
  have checked: "cross_check_model_values ?p = None"
    by (simp add: check_defs default_project_def fixture_defs)
  have guarded: "check_protected_parameters ?p8
                   = Inl (ValueError (CantDeleteProtected [''Substrate Roughness'']))"
    by (simp add: check_protected_parameters_def parameter_class_lists_def
                  protected_names_def default_project_def Let_def)
  have "model_validate ?p
           = (let p8 = ?p8 in
              case cross_check_model_values ?p of
                Some e \<Rightarrow> (Some (raised_by_validator e), p8)
              | None \<Rightarrow>
                  (case check_protected_parameters p8 of
                     Inl e \<Rightarrow> (Some (raised_by_validator e), p8)
                   | Inr p' \<Rightarrow> (None, p')))"
    by (rule model_validate_settled [OF _ _ _ _ _ _ _ _ settled])
       (simp_all add: default_project_def fixture_defs)
  then show ?thesis
    by (simp add: Let_def checked guarded raised_by_validator_def)
qed

text \<open>
  An instance of the theorem of claim C1 on the default project. The raw removal of the
  protected parameter returns and leaves the collection of the parameters empty; the
  validation that follows raises; the wrapped removal raises the validation error and the
  collection holds the protected parameter again.
\<close>

theorem classlist_wrapper_atomic_witness:
  "raw_routine parameters (\<lambda>c. ClassList_remove c ''Substrate Roughness'') default_project
     = (Inr (), set_data parameters [] default_project)
   \<and> entities (set_data parameters [] default_project) parameters = []
   \<and> fst (model_validate (set_data parameters [] default_project))
       = Some (ValidationError [CantDeleteProtected [''Substrate Roughness'']])
   \<and> fst (classlist_wrapper parameters
            (raw_routine parameters (\<lambda>c. ClassList_remove c ''Substrate Roughness''))
            default_project)
       = (Inl (ValidationError [CantDeleteProtected [''Substrate Roughness'']])
            :: error + unit)
   \<and> entities (snd (classlist_wrapper parameters
            (raw_routine parameters (\<lambda>c. ClassList_remove c ''Substrate Roughness''))
            default_project)) parameters
       = [substrate_roughness]"
proof -
  let ?func = "raw_routine parameters (\<lambda>c. ClassList_remove c ''Substrate Roughness'')"
  obtain outcome p' where run: "classlist_wrapper parameters ?func default_project = (outcome, p')"
    by (cases "classlist_wrapper parameters ?func default_project")
  note raw = raw_remove_substrate_roughness
  note validated = validate_without_substrate_roughness
  from classlist_wrapper_atomic [OF run] raw validated
  have outcome: "outcome = Inl (ValidationError (custom_pydantic_validation_error
                    [CantDeleteProtected [''Substrate Roughness'']]))"
    by simp
  with classlist_wrapper_atomic [OF run]
  have "entities p' parameters = entities default_project parameters"
    by simp
  with outcome run raw validated show ?thesis
    by (simp add: custom_pydantic_validation_error_def default_project_def
                  default_project_lists_def)
qed

section \<open>References after a mutation that succeeds\<close>



text \<open>The wrapped removal of the data entry \<^verbatim>\<open>Simulation\<close> from the default project.\<close>

lemma raw_remove_simulation:
  "raw_routine data' (\<lambda>c. ClassList_remove c ''Simulation'') default_project
     = (Inr (), set_data data' [] default_project)"
  by (simp add: raw_routine_def on_list_def ClassList_remove_def set_data_def
                default_project_def default_project_lists_def simulation_def)

lemma validate_without_simulation:
  "model_validate (set_data data' [] default_project)
     = (None, (set_data data' [] default_project)
                \<lparr>all_names := get_all_names (set_data data' [] default_project)\<rparr>)"
proof -
  let ?p = "set_data data' [] default_project"
  let ?p8 = "?p\<lparr>all_names := get_all_names ?p\<rparr>"
  have settled: "\<forall>class_list. all_names ?p class_list = names ?p class_list
           \<or> length (all_names ?p class_list) \<noteq> length (names ?p class_list)"
  proof
    fix class_list
    show "all_names ?p class_list = names ?p class_list
           \<or> length (all_names ?p class_list) \<noteq> length (names ?p class_list)"
      by (cases class_list) (simp_all add: default_project_def get_names_def fixture_defs)
  qed
  have checked: "cross_check_model_values ?p = None"
    by (simp add: check_defs default_project_def fixture_defs)
  have again: "get_all_protected_parameters ?p8 = protected_parameters ?p8"
  proof
    fix a
    show "get_all_protected_parameters ?p8 a = protected_parameters ?p8 a"
      unfolding get_all_protected_parameters_def protected_names_def
      by (cases a)
         (simp_all add: default_project_def parameter_class_lists_def isinstance_def
                        fixture_defs)
  qed
  have kept: "\<forall>a \<in> set parameter_class_lists.
                set (protected_parameters ?p8 a) \<subseteq> set (protected_names ?p8 a)"
  proof
    fix a
    assume "a \<in> set parameter_class_lists"
    with fun_cong [OF again, of a]
    have "protected_names ?p8 a = protected_parameters ?p8 a"
      unfolding get_all_protected_parameters_def by simp
    then show "set (protected_parameters ?p8 a) \<subseteq> set (protected_names ?p8 a)"
      by simp
  qed
  have "check_protected_parameters ?p8
          = Inr (?p8\<lparr>protected_parameters := get_all_protected_parameters ?p8\<rparr>)"
    by (rule check_protected_parameters_kept) (rule kept)
  then have guarded: "check_protected_parameters ?p8 = Inr ?p8"
    unfolding again by simp
  have "model_validate ?p
           = (let p8 = ?p8 in
              case cross_check_model_values ?p of
                Some e \<Rightarrow> (Some (raised_by_validator e), p8)
              | None \<Rightarrow>
                  (case check_protected_parameters p8 of
                     Inl e \<Rightarrow> (Some (raised_by_validator e), p8)
                   | Inr p' \<Rightarrow> (None, p')))"
    by (rule model_validate_settled [OF _ _ _ _ _ _ _ _ settled])
       (simp_all add: default_project_def fixture_defs)
  then show ?thesis
    by (simp add: Let_def checked guarded)
qed

lemma wrapped_remove_simulation:
  "wrapped_remove data' ''Simulation'' default_project
     = (Inr (), (set_data data' [] default_project)
                  \<lparr>all_names := get_all_names (set_data data' [] default_project)\<rparr>)"
  by (simp add: wrapped_remove_def classlist_wrapper_def raw_remove_simulation
                validate_without_simulation)


section \<open>The data entry of the simulation\<close>

lemma get_all_protected_parameters_set_data:
  "a \<notin> set parameter_class_lists
     \<Longrightarrow> get_all_protected_parameters (set_data a d p) = get_all_protected_parameters p"
  by (rule ext) (auto simp: get_all_protected_parameters_def protected_names_def)

lemma check_protected_parameters_set_data:
  assumes "a \<notin> set parameter_class_lists"
  shows "check_protected_parameters (set_data a d p)
           = map_sum id (set_data a d) (check_protected_parameters p)"
proof -
  have names: "protected_names (set_data a d p) class_list = protected_names p class_list"
    if "class_list \<in> set parameter_class_lists" for class_list
    using that assms by (auto simp: protected_names_def)
  have "first_raise (\<lambda>class_list.
             let protected_parameters' = protected_names (set_data a d p) class_list in
             if \<not> (\<forall>element \<in> set (protected_parameters (set_data a d p) class_list).
                      element \<in> set protected_parameters')
             then Some (ValueError (CantDeleteProtected
                     (filter (\<lambda>param. param \<notin> set protected_parameters')
                             (protected_parameters (set_data a d p) class_list))))
             else None)
           parameter_class_lists
        = first_raise (\<lambda>class_list.
             let protected_parameters' = protected_names p class_list in
             if \<not> (\<forall>element \<in> set (protected_parameters p class_list).
                      element \<in> set protected_parameters')
             then Some (ValueError (CantDeleteProtected
                     (filter (\<lambda>param. param \<notin> set protected_parameters')
                             (protected_parameters p class_list))))
             else None)
           parameter_class_lists"
    by (rule first_raise_cong) (simp add: names Let_def)
  then show ?thesis
    unfolding check_protected_parameters_def get_all_protected_parameters_set_data [OF assms]
    by (simp add: set_data_def split: option.splits)
qed

lemma init_simulation_absent:
  assumes "init_simulation f = Inr f'"
    and "''Simulation'' \<notin> set (map title (names f data'))"
  shows "entities f' data' = simulation # entities f data'"
  using assms
  by (auto simp: init_simulation_def on_list_def ClassList_insert_def
           split: if_splits sum.splits)

lemma guard_default: "check_protected_parameters default_project = Inr default_project"
proof -
  have again: "get_all_protected_parameters default_project
                 = protected_parameters default_project"
  proof
    fix a
    show "get_all_protected_parameters default_project a
            = protected_parameters default_project a"
      unfolding get_all_protected_parameters_def protected_names_def
      by (cases a)
         (simp_all add: default_project_def parameter_class_lists_def isinstance_def
                        fixture_defs)
  qed
  have kept: "\<forall>a \<in> set parameter_class_lists.
                set (protected_parameters default_project a)
                  \<subseteq> set (protected_names default_project a)"
  proof
    fix a
    assume "a \<in> set parameter_class_lists"
    with fun_cong [OF again, of a]
    have "protected_names default_project a = protected_parameters default_project a"
      unfolding get_all_protected_parameters_def by simp
    then show "set (protected_parameters default_project a)
                 \<subseteq> set (protected_names default_project a)"
      by simp
  qed
  show ?thesis
    unfolding check_protected_parameters_kept [OF kept] again by simp
qed

text \<open>
  Claim C8 as it is written does not hold. The default project holds the data entry
  \<^verbatim>\<open>Simulation\<close> that the construction has created; the wrapped removal of it succeeds and
  leaves the collection of the data empty.
\<close>

theorem simulation_can_be_removed:
  "Project_init default_fields = Inr default_project
   \<and> entities default_project data' = [simulation]
   \<and> fst (wrapped_remove data' ''Simulation'' default_project) = Inr ()
   \<and> entities (snd (wrapped_remove data' ''Simulation'' default_project)) data' = []"
  unfolding wrapped_remove_simulation Project_init_default
  by (simp add: default_project_def default_project_lists_def)

text \<open>
  Claim C8, amended. The construction inserts the data entry \<^verbatim>\<open>Simulation\<close> at the head of
  the data when no data entry has a name that title-cases to \<^verbatim>\<open>Simulation\<close>. The entry is
  not protected: the guard \<^verbatim>\<open>check_protected_parameters\<close> reads the collections of
  \<^verbatim>\<open>parameter_class_lists\<close> only, so its outcome is the same whatever the data hold, and a
  mutation that removes \<^verbatim>\<open>Simulation\<close> is not rejected by it.
\<close>

theorem simulation_not_protected:
  "(init_simulation f = Inr f' \<and> ''Simulation'' \<notin> set (map title (names f data'))
      \<longrightarrow> entities f' data' = simulation # entities f data')
   \<and> check_protected_parameters (set_data data' d p)
       = map_sum id (set_data data' d) (check_protected_parameters p)"
proof -
  have "data' \<notin> set parameter_class_lists"
    by (simp add: parameter_class_lists_def)
  then show ?thesis
    using check_protected_parameters_set_data init_simulation_absent by blast
qed

text \<open>
  An instance of the theorem of claim C8: the insertion into the empty data of the default
  fields, and the guard on the default project without its data.
\<close>

theorem simulation_not_protected_witness:
  "init_simulation (default_fields\<lparr>lists := default_project_lists
        (data' := \<lparr>data = [], class_handle = Some Data\<rparr>)\<rparr>)
     = Inr (default_fields\<lparr>lists := default_project_lists\<rparr>)
   \<and> entities (default_fields\<lparr>lists := default_project_lists\<rparr>) data' = [simulation]
   \<and> check_protected_parameters (set_data data' [] default_project)
       = Inr (set_data data' [] default_project)"
proof -
  let ?f = "default_fields\<lparr>lists := default_project_lists
              (data' := \<lparr>data = [], class_handle = Some Data\<rparr>)\<rparr>"
  let ?f' = "default_fields\<lparr>lists := default_project_lists\<rparr>"
  have lists: "default_project_lists(data' := \<lparr>data = [simulation], class_handle = Some Data\<rparr>)
               = default_project_lists"
    by (rule ext) (simp add: default_project_lists_def)
  have "init_simulation ?f
          = Inr (?f\<lparr>lists := (lists ?f)(data' :=
                   (lists ?f data')\<lparr>data := simulation # entities ?f data'\<rparr>)\<rparr>)"
    by (rule init_simulation_absent_eval) (simp_all add: get_names_def)
  then have built: "init_simulation ?f = Inr ?f'"
    by (simp add: lists)
  have absent: "''Simulation'' \<notin> set (map title (names ?f data'))"
    by (simp add: get_names_def)
  note guard = guard_default
  from simulation_not_protected [of ?f ?f' "[]" default_project] built absent guard
  show ?thesis
    by (simp add: default_project_lists_def)
qed

end
